theory Spec2Isabelle
  imports Complex_Main
begin

section \<open>SurfaceOverlay (freeview): data model\<close>

text \<open>
  A shallow embedding of \<^verbatim>\<open>src/freeview/SurfaceOverlay.cpp\<close>.

  Conventions of the embedding.
  \<^item> A \<^verbatim>\<open>float\<close> or \<^verbatim>\<open>double\<close> sample is a \<open>real\<close>: the file itself only copies and
    compares samples, all arithmetic on them happens in the external library. Not-a-number
    samples and rounding are outside the model.
  \<^item> A C \<^verbatim>\<open>int\<close> is an \<open>int\<close>; the products \<^verbatim>\<open>frame * size\<close> of the source are taken
    without wrap-around (the buffers they index exist in memory).
  \<^item> A buffer pointer is a \<open>real list option\<close>: \<open>None\<close> is the null pointer, \<open>Some xs\<close> an
    array holding \<open>xs\<close>. \<^verbatim>\<open>new float[n]\<close> gives an array of indeterminate contents, read from
    the parameter \<open>heap_junk\<close>.
  \<^item> Objects that are shared by pointer (overlays, property objects) live in a store, the
    record \<open>world\<close>; a method takes the address \<open>this\<close> and the world and returns the new
    world, or a \<open>fault\<close> where the C++ dereferences a null or dangling pointer or leaves an
    array.
  \<^item> The collaborators that are not part of the file (the imaging library, the color-map
    property object, the volume layer) are parameters, collected in the record \<open>env\<close>, or
    small records holding what the file reads from them.
\<close>

datatype fault = NullPointer | OutOfBounds

datatype event = DataUpdated nat | SurfaceUpdateOverlay nat

text \<open>\<^verbatim>\<open>LayerSurface\<close>: what the overlay reads from its mesh (\<^verbatim>\<open>GetHemisphere()\<close>,
  \<^verbatim>\<open>GetSourceSurface()->GetMRIS()\<close> with \<^verbatim>\<open>nvertices\<close> and the per-vertex \<^verbatim>\<open>val\<close>).\<close>

record layer_surface =
  surface_id :: nat
  hemisphere :: int
  nvertices :: int
  vertex_vals :: "real list"

text \<open>\<^verbatim>\<open>MRI\<close>: a volume of the imaging library, with its dimensions and its voxels.\<close>

record mri =
  mri_id :: nat
  mri_width :: int
  mri_height :: int
  mri_depth :: int
  mri_nframes :: int
  mri_voxels :: "int \<Rightarrow> int \<Rightarrow> int \<Rightarrow> int \<Rightarrow> real"

text \<open>\<^verbatim>\<open>LayerMRI\<close>: the correlation source volume; \<open>cursor_signal\<close> is what
  \<^verbatim>\<open>GetVoxelValueByOriginalIndexAllFrames\<close> writes for the voxel under the cursor.\<close>

record layer_mri =
  volume_id :: nat
  number_of_frames :: int
  cursor_signal :: "real list"

text \<open>\<^verbatim>\<open>SurfaceOverlayProperty\<close>: the shared color-map and smoothing configuration.\<close>

record overlay_property =
  smooth :: bool
  smooth_steps :: int
  colormap_resets :: nat

record overlay =
  fData :: "real list option"
  fDataRaw :: "real list option"
  fDataUnsmoothed :: "real list option"
  dMaxValue :: real
  dMinValue :: real
  nDataSize :: int
  surface :: "layer_surface option"
  bCorrelationData :: bool
  bCorrelationDataReady :: bool
  mriCorrelation :: "mri option"
  overlayPaired :: "nat option"
  nActiveFrame :: int
  nNumOfFrames :: int
  bComputeCorrelation :: bool
  volumeCorrelationSource :: "layer_mri option"
  fCorrelationSourceData :: "real list option"
  fCorrelationDataBuffer :: "real list option"
  property :: nat
  signalsBlocked :: bool
  strName :: string

record world =
  overlays :: "nat \<Rightarrow> overlay option"
  properties :: "nat \<Rightarrow> overlay_property option"
  cerr :: "string list"
  events :: "event list"
  deleted_properties :: "nat list"
  freed_mris :: "nat list"

record env =
  MRIallocSequence :: "int \<Rightarrow> bool"
  MRISsmoothMRI :: "layer_surface \<Rightarrow> real list \<Rightarrow> int \<Rightarrow> (nat \<Rightarrow> real) option"
  MRIreadHeader :: "string \<Rightarrow> mri option"
  MRIread :: "string \<Rightarrow> mri option"
  CalculateCorrelationCoefficient :: "real list \<Rightarrow> real list \<Rightarrow> int \<Rightarrow> real"
  heap_junk :: "nat \<Rightarrow> real"
  default_nSteps :: int

section \<open>Arrays\<close>

text \<open>\<open>slice xs off n\<close> reads \<open>n\<close> samples at \<open>xs + off\<close>; \<open>memcpy dst src off n\<close> is
  \<^verbatim>\<open>memcpy(dst, src + off, sizeof(float)*n)\<close>. Both are \<open>None\<close> when the C call would leave
  one of the arrays.\<close>

definition slice :: "real list \<Rightarrow> int \<Rightarrow> int \<Rightarrow> real list option" where
  "slice xs off n =
     (if 0 \<le> off \<and> 0 \<le> n \<and> off + n \<le> int (length xs)
      then Some (take (nat n) (drop (nat off) xs)) else None)"

definition memcpy :: "real list \<Rightarrow> real list \<Rightarrow> int \<Rightarrow> int \<Rightarrow> real list option" where
  "memcpy dst src off n =
     (case slice src off n of
        None \<Rightarrow> None
      | Some ys \<Rightarrow> if n \<le> int (length dst) then Some (ys @ drop (nat n) dst) else None)"

definition new_float :: "env \<Rightarrow> int \<Rightarrow> real list" where
  "new_float env n = map (heap_junk env) [0..<nat n]"

text \<open>The running maximum and minimum of lines 134-145, 252-259 and 366-376, as the pair
  \<open>(m_dMaxValue, m_dMinValue)\<close>: a sample that raises the maximum is not compared with the
  minimum.\<close>

fun minmax_loop :: "real list \<Rightarrow> real \<times> real \<Rightarrow> real \<times> real" where
  "minmax_loop [] (mx, mn) = (mx, mn)"
| "minmax_loop (x # xs) (mx, mn) =
     minmax_loop xs (if mx < x then (x, mn) else if mn > x then (mx, x) else (mx, mn))"

definition put_overlay :: "nat \<Rightarrow> overlay \<Rightarrow> world \<Rightarrow> world" where
  "put_overlay this ov w = w\<lparr>overlays := (overlays w)(this \<mapsto> ov)\<rparr>"

definition log_cerr :: "string \<Rightarrow> world \<Rightarrow> world" where
  "log_cerr msg w = w\<lparr>cerr := cerr w @ [msg]\<rparr>"

section \<open>Smoothing\<close>

text \<open>\<^verbatim>\<open>SurfaceOverlay::SmoothData(int nSteps_in, float* data_out)\<close>, lines 325-356. The result
  carries the contents of \<open>data_out\<close> after the call. The smoothed volume has the size of
  the volume passed in, one voxel for each vertex: \<open>MRISsmoothMRI\<close> gives its voxels by their
  index.\<close>

definition SmoothData ::
  "env \<Rightarrow> nat \<Rightarrow> int \<Rightarrow> real list option \<Rightarrow> world \<Rightarrow> fault + world \<times> real list option" where
  "SmoothData env this nSteps_in data_out w =
     (case overlays w this of
        None \<Rightarrow> Inl NullPointer
      | Some ov \<Rightarrow>
          if \<not> MRIallocSequence env (nDataSize ov)
          then Inr (log_cerr ''Can not allocate mri'' w, data_out)
          else
            (case fDataUnsmoothed ov of
               None \<Rightarrow> Inl NullPointer
             | Some u \<Rightarrow>
            (case slice u 0 (nDataSize ov) of
               None \<Rightarrow> Inl OutOfBounds
             | Some src \<Rightarrow>
            (case (if nSteps_in < 1
                   then map_option smooth_steps (properties w (property ov))
                   else Some nSteps_in) of
               None \<Rightarrow> Inl NullPointer
             | Some nSteps \<Rightarrow>
            (case surface ov of
               None \<Rightarrow> Inl NullPointer
             | Some surf \<Rightarrow>
            (case MRISsmoothMRI env surf src nSteps of
               None \<Rightarrow> Inr (log_cerr ''Can not allocate mri'' w, data_out)
             | Some sm \<Rightarrow>
                 (case data_out of
                    Some out \<Rightarrow>
                      (case memcpy out (map sm [0..<nat (nDataSize ov)]) 0 (nDataSize ov) of
                         None \<Rightarrow> Inl OutOfBounds
                       | Some out' \<Rightarrow> Inr (w, Some out'))
                  | None \<Rightarrow>
                      (case fData ov of
                         None \<Rightarrow> Inl NullPointer
                       | Some d \<Rightarrow>
                           (case memcpy d (map sm [0..<nat (nDataSize ov)]) 0 (nDataSize ov) of
                              None \<Rightarrow> Inl OutOfBounds
                            | Some d' \<Rightarrow>
                                Inr (put_overlay this (ov\<lparr>fData := Some d'\<rparr>) w, None))))))))))"

text \<open>The call \<^verbatim>\<open>SmoothData()\<close> with the default arguments of the header.\<close>

definition SmoothData_default :: "env \<Rightarrow> nat \<Rightarrow> world \<Rightarrow> fault + world" where
  "SmoothData_default env this w =
     (case SmoothData env this (default_nSteps env) None w of
        Inl e \<Rightarrow> Inl e
      | Inr (w', _) \<Rightarrow> Inr w')"

text \<open>\<^verbatim>\<open>if (GetProperty()->GetSmooth()) SmoothData();\<close> (lines 263, 377, 415).\<close>

definition smooth_if_enabled :: "env \<Rightarrow> nat \<Rightarrow> world \<Rightarrow> fault + world" where
  "smooth_if_enabled env this w =
     (case overlays w this of
        None \<Rightarrow> Inl NullPointer
      | Some ov \<Rightarrow>
          (case properties w (property ov) of
             None \<Rightarrow> Inl NullPointer
           | Some p \<Rightarrow> if smooth p then SmoothData_default env this w else Inr w))"

section \<open>Frame selection\<close>

text \<open>Lines 362-376 of \<^verbatim>\<open>SetActiveFrame\<close>, on the overlay's own fields.\<close>

definition select_frame :: "int \<Rightarrow> overlay \<Rightarrow> fault + overlay" where
  "select_frame nFrame ov =
     (case fData ov of
        None \<Rightarrow> Inl NullPointer
      | Some d \<Rightarrow>
     (case fDataRaw ov of
        None \<Rightarrow> Inl NullPointer
      | Some r \<Rightarrow>
     (case memcpy d r (nFrame * nDataSize ov) (nDataSize ov) of
        None \<Rightarrow> Inl OutOfBounds
      | Some d' \<Rightarrow>
     (case fDataUnsmoothed ov of
        None \<Rightarrow> Inl NullPointer
      | Some u \<Rightarrow>
     (case memcpy u d' 0 (nDataSize ov) of
        None \<Rightarrow> Inl OutOfBounds
      | Some u' \<Rightarrow>
     (case d' of
        [] \<Rightarrow> Inl OutOfBounds
      | x # _ \<Rightarrow>
          (case minmax_loop (take (nat (nDataSize ov)) d') (x, x) of
             (mx, mn) \<Rightarrow>
               Inr (ov\<lparr>nActiveFrame := nFrame, fData := Some d', fDataUnsmoothed := Some u',
                        dMaxValue := mx, dMinValue := mn\<rparr>))))))))"

text \<open>\<^verbatim>\<open>SurfaceOverlay::SetActiveFrame(int nFrame)\<close>, lines 358-381.\<close>

definition SetActiveFrame :: "env \<Rightarrow> nat \<Rightarrow> int \<Rightarrow> world \<Rightarrow> fault + world" where
  "SetActiveFrame env this nFrame w =
     (case overlays w this of
        None \<Rightarrow> Inl NullPointer
      | Some ov \<Rightarrow>
          (case select_frame (if nFrame \<ge> nNumOfFrames ov then 0 else nFrame) ov of
             Inl e \<Rightarrow> Inl e
           | Inr ov' \<Rightarrow> smooth_if_enabled env this (put_overlay this ov' w)))"

text \<open>\<^verbatim>\<open>SurfaceOverlay::GetRange(double* range)\<close>, lines 437-449: the pair
  \<open>(range[0], range[1])\<close>.\<close>

definition GetRange :: "overlay \<Rightarrow> real \<times> real" where
  "GetRange ov =
     (if bComputeCorrelation ov then (- 1, 1) else (dMinValue ov, dMaxValue ov))"

section \<open>Loading\<close>

text \<open>Modelled from the spec: \<^verbatim>\<open>SurfaceOverlayProperty::Reset()\<close> is not under src/. It is the
  color-map reset of the spec (section 3); the model counts the resets and leaves the
  smoothing configuration as it is.\<close>

definition property_Reset :: "nat \<Rightarrow> world \<Rightarrow> fault + world" where
  "property_Reset pid w =
     (case properties w pid of
        None \<Rightarrow> Inl NullPointer
      | Some p \<Rightarrow>
          Inr (w\<lparr>properties := (properties w)(pid \<mapsto> p\<lparr>colormap_resets := Suc (colormap_resets p)\<rparr>)\<rparr>))"

text \<open>\<^verbatim>\<open>SurfaceOverlay::InitializeData()\<close>, lines 103-148: the data is the mesh's own
  per-vertex field. The array \<^verbatim>\<open>m_fDataUnsmoothed\<close> is allocated and not written.\<close>

definition InitializeData_mesh :: "env \<Rightarrow> nat \<Rightarrow> world \<Rightarrow> fault + world" where
  "InitializeData_mesh env this w =
     (case overlays w this of
        None \<Rightarrow> Inl NullPointer
      | Some ov \<Rightarrow>
          (case surface ov of
             None \<Rightarrow> Inr w
           | Some surf \<Rightarrow>
               (case vertex_vals surf of
                  [] \<Rightarrow> Inl OutOfBounds
                | x # _ \<Rightarrow>
                    (case slice (vertex_vals surf) 0 (nvertices surf) of
                       None \<Rightarrow> Inl OutOfBounds
                     | Some vs \<Rightarrow>
                         (case minmax_loop vs (x, x) of
                            (mx, mn) \<Rightarrow>
                              Inr (put_overlay this
                                    (ov\<lparr>nDataSize := nvertices surf,
                                        fDataRaw := Some vs,
                                        fData := Some vs,
                                        fDataUnsmoothed := Some (new_float env (nvertices surf)),
                                        dMaxValue := mx, dMinValue := mn\<rparr>) w))))))"

text \<open>\<^verbatim>\<open>SurfaceOverlay::InitializeData(float* data_buffer_in, int nvertices, int nframes)\<close>,
  lines 150-180.\<close>

definition InitializeData ::
  "env \<Rightarrow> nat \<Rightarrow> real list option \<Rightarrow> int \<Rightarrow> int \<Rightarrow> world \<Rightarrow> fault + world" where
  "InitializeData env this data_buffer_in nvertices_in nframes_in w =
     (case overlays w this of
        None \<Rightarrow> Inl NullPointer
      | Some ov \<Rightarrow>
          (case surface ov of
             None \<Rightarrow> Inr w
           | Some surf \<Rightarrow>
               (case data_buffer_in of
                  None \<Rightarrow>
                    Inr (put_overlay this
                          (ov\<lparr>nDataSize := nvertices_in, nNumOfFrames := nframes_in,
                              fDataRaw := None\<rparr>) w)
                | Some raw \<Rightarrow>
                    (case SetActiveFrame env this 0
                            (put_overlay this
                              (ov\<lparr>nDataSize := nvertices_in, nNumOfFrames := nframes_in,
                                  fDataRaw := Some raw,
                                  fData := Some (new_float env nvertices_in),
                                  fDataUnsmoothed := Some (new_float env nvertices_in)\<rparr>) w) of
                       Inl e \<Rightarrow> Inl e
                     | Inr w1 \<Rightarrow>
                         (case property_Reset (property ov) w1 of
                            Inl e \<Rightarrow> Inl e
                          | Inr w2 \<Rightarrow>
                              (case overlays w2 this of
                                 None \<Rightarrow> Inl NullPointer
                               | Some ov2 \<Rightarrow>
                                   Inr (put_overlay this
                                         (ov2\<lparr>fCorrelationSourceData :=
                                                 Some (replicate (nat nframes_in) 0),
                                              fCorrelationDataBuffer :=
                                                 Some (new_float env nframes_in)\<rparr>) w2)))))))"

text \<open>The constructor, lines 47-70, for a mesh \<open>surf\<close>: the new overlay is stored at the
  address \<open>this\<close>, its new property object \<open>p0\<close> at \<open>pid\<close>. The initialiser list gives no
  value to \<^verbatim>\<open>m_nDataSize\<close> and \<^verbatim>\<open>m_bCorrelationDataReady\<close>; they start as 0 and \<open>False\<close>
  here.\<close>

definition new_overlay :: "layer_surface \<Rightarrow> nat \<Rightarrow> overlay" where
  "new_overlay surf pid =
     \<lparr>fData = None, fDataRaw = None, fDataUnsmoothed = None,
      dMaxValue = 0, dMinValue = 0, nDataSize = 0, surface = Some surf,
      bCorrelationData = False, bCorrelationDataReady = False, mriCorrelation = None,
      overlayPaired = None, nActiveFrame = 0, nNumOfFrames = 1,
      bComputeCorrelation = False, volumeCorrelationSource = None,
      fCorrelationSourceData = None, fCorrelationDataBuffer = None,
      property = pid, signalsBlocked = False, strName = []\<rparr>"

definition SurfaceOverlay ::
  "env \<Rightarrow> nat \<Rightarrow> layer_surface \<Rightarrow> nat \<Rightarrow> overlay_property \<Rightarrow> world \<Rightarrow> fault + world" where
  "SurfaceOverlay env this surf pid p0 w =
     (case InitializeData_mesh env this (put_overlay this (new_overlay surf pid) w) of
        Inl e \<Rightarrow> Inl e
      | Inr w1 \<Rightarrow> Inr (w1\<lparr>properties := (properties w1)(pid \<mapsto> p0)\<rparr>))"

section \<open>Correlation data\<close>

text \<open>\<^verbatim>\<open>SurfaceOverlay::LoadCorrelationData(const QString& filename)\<close>, lines 197-225. The
  header volume is freed again (lines 209, 212).\<close>

definition MRIfree :: "mri \<Rightarrow> world \<Rightarrow> world" where
  "MRIfree m w = w\<lparr>freed_mris := freed_mris w @ [mri_id m]\<rparr>"

definition LoadCorrelationData :: "env \<Rightarrow> nat \<Rightarrow> string \<Rightarrow> world \<Rightarrow> fault + bool \<times> world" where
  "LoadCorrelationData env this filename w =
     (case overlays w this of
        None \<Rightarrow> Inl NullPointer
      | Some ov \<Rightarrow>
          (case MRIreadHeader env filename of
             None \<Rightarrow> Inr (False, log_cerr (''MRIread failed: unable to read from '' @ filename) w)
           | Some hdr \<Rightarrow>
               if mri_width hdr \<noteq> nDataSize ov * 2
                  \<or> (mri_height hdr \<noteq> 1 \<and> mri_height hdr \<noteq> nDataSize ov * 2)
                  \<or> (mri_nframes hdr \<noteq> 1 \<and> mri_nframes hdr \<noteq> nDataSize ov * 2)
               then Inr (False,
                         MRIfree hdr (log_cerr ''Correlation data does not match with surface'' w))
               else
                 (case MRIread env filename of
                    None \<Rightarrow>
                      Inr (False,
                           log_cerr (''MRIread failed: Unable to read from '' @ filename)
                             (MRIfree hdr w))
                  | Some m \<Rightarrow>
                      Inr (True,
                           put_overlay this
                             (ov\<lparr>mriCorrelation := Some m, bCorrelationData := True,
                                 bCorrelationDataReady := False\<rparr>) (MRIfree hdr w)))))"

definition delete_property :: "nat \<Rightarrow> world \<Rightarrow> world" where
  "delete_property pid w =
     w\<lparr>properties := (properties w)(pid := None),
       deleted_properties := deleted_properties w @ [pid]\<rparr>"

text \<open>\<^verbatim>\<open>SurfaceOverlay::CopyCorrelationData(SurfaceOverlay* overlay)\<close>, lines 182-195.
  \<^verbatim>\<open>HasCorrelationData()\<close> is declared in the header, which is not under src/; it is taken
  as the accessor of \<^verbatim>\<open>m_bCorrelationData\<close>.\<close>

definition CopyCorrelationData :: "nat \<Rightarrow> nat \<Rightarrow> world \<Rightarrow> fault + world" where
  "CopyCorrelationData this other w =
     (case overlays w other of
        None \<Rightarrow> Inl NullPointer
      | Some src \<Rightarrow>
          if \<not> bCorrelationData src then Inr w
          else
            (case overlays w this of
               None \<Rightarrow> Inl NullPointer
             | Some ov \<Rightarrow>
                 (let w1 = put_overlay this
                             (ov\<lparr>property := property src,
                                 mriCorrelation := mriCorrelation src,
                                 overlayPaired := Some other\<rparr>)
                             (delete_property (property ov) w)
                  in (case overlays w1 other of
                        None \<Rightarrow> Inl NullPointer
                      | Some src1 \<Rightarrow>
                          (let w2 = put_overlay other (src1\<lparr>overlayPaired := Some this\<rparr>) w1
                           in (case overlays w2 this of
                                 None \<Rightarrow> Inl NullPointer
                               | Some ov2 \<Rightarrow>
                                   Inr (put_overlay this (ov2\<lparr>bCorrelationData := True\<rparr>) w2)))))))"


section \<open>Notifications\<close>

text \<open>\<^verbatim>\<open>m_surface->UpdateOverlay(true)\<close> is a direct call on the mesh layer;
  \<^verbatim>\<open>emit DataUpdated()\<close> is a signal, delivered unless \<^verbatim>\<open>blockSignals(true)\<close> is in force
  for the emitting object.\<close>

definition surface_UpdateOverlay :: "nat \<Rightarrow> world \<Rightarrow> fault + world" where
  "surface_UpdateOverlay this w =
     (case overlays w this of
        None \<Rightarrow> Inl NullPointer
      | Some ov \<Rightarrow>
          (case surface ov of
             None \<Rightarrow> Inl NullPointer
           | Some surf \<Rightarrow> Inr (w\<lparr>events := events w @ [SurfaceUpdateOverlay (surface_id surf)]\<rparr>)))"

definition emit_DataUpdated :: "nat \<Rightarrow> world \<Rightarrow> fault + world" where
  "emit_DataUpdated this w =
     (case overlays w this of
        None \<Rightarrow> Inl NullPointer
      | Some ov \<Rightarrow>
          Inr (if signalsBlocked ov then w else w\<lparr>events := events w @ [DataUpdated this]\<rparr>))"

definition blockSignals :: "nat \<Rightarrow> bool \<Rightarrow> world \<Rightarrow> fault + world" where
  "blockSignals this b w =
     (case overlays w this of
        None \<Rightarrow> Inl NullPointer
      | Some ov \<Rightarrow> Inr (put_overlay this (ov\<lparr>signalsBlocked := b\<rparr>) w))"

text \<open>Lines 318-319, 281-282 and 417-418.\<close>

definition notify_update :: "nat \<Rightarrow> world \<Rightarrow> fault + world" where
  "notify_update this w =
     (case surface_UpdateOverlay this w of
        Inl e \<Rightarrow> Inl e
      | Inr w1 \<Rightarrow> emit_DataUpdated this w1)"

section \<open>Toggling the smoothing\<close>

text \<open>Lines 310-319 of \<^verbatim>\<open>UpdateSmooth\<close>: the part that works on the overlay itself.\<close>

definition UpdateSmooth_own :: "env \<Rightarrow> nat \<Rightarrow> world \<Rightarrow> fault + world" where
  "UpdateSmooth_own env this w =
     (case overlays w this of
        None \<Rightarrow> Inl NullPointer
      | Some ov \<Rightarrow>
          (case properties w (property ov) of
             None \<Rightarrow> Inl NullPointer
           | Some p \<Rightarrow>
               (case (if smooth p then SmoothData_default env this w
                      else
                        (case fData ov of
                           None \<Rightarrow> Inl NullPointer
                         | Some d \<Rightarrow>
                             (case fDataUnsmoothed ov of
                                None \<Rightarrow> Inl NullPointer
                              | Some u \<Rightarrow>
                                  (case memcpy d u 0 (nDataSize ov) of
                                     None \<Rightarrow> Inl OutOfBounds
                                   | Some d' \<Rightarrow>
                                       Inr (put_overlay this (ov\<lparr>fData := Some d'\<rparr>) w))))) of
                  Inl e \<Rightarrow> Inl e
                | Inr w1 \<Rightarrow> notify_update this w1)))"

text \<open>\<^verbatim>\<open>SurfaceOverlay::UpdateSmooth(bool trigger_paired)\<close>, lines 308-323. The call on the
  paired overlay passes \<^verbatim>\<open>false\<close>, so it goes no further.\<close>

definition UpdateSmooth :: "env \<Rightarrow> nat \<Rightarrow> bool \<Rightarrow> world \<Rightarrow> fault + world" where
  "UpdateSmooth env this trigger_paired w =
     (case UpdateSmooth_own env this w of
        Inl e \<Rightarrow> Inl e
      | Inr w1 \<Rightarrow>
          (case overlays w1 this of
             None \<Rightarrow> Inl NullPointer
           | Some ov \<Rightarrow>
               (case overlayPaired ov of
                  None \<Rightarrow> Inr w1
                | Some b \<Rightarrow> if trigger_paired then UpdateSmooth_own env b w1 else Inr w1)))"

text \<open>Modelled from the spec: \<^verbatim>\<open>SurfaceOverlayProperty::SetSmooth\<close> is not under src/. The
  user's toggle stores the flag in the property object of the overlay and signals
  \<^verbatim>\<open>SmoothChanged()\<close>, which the constructor (line 69) connects to \<^verbatim>\<open>UpdateSmooth()\<close> of the
  overlay; \<open>trigger_paired\<close> is the default argument of the header.\<close>

definition SetSmooth :: "env \<Rightarrow> nat \<Rightarrow> bool \<Rightarrow> bool \<Rightarrow> world \<Rightarrow> fault + world" where
  "SetSmooth env this flag trigger_paired w =
     (case overlays w this of
        None \<Rightarrow> Inl NullPointer
      | Some ov \<Rightarrow>
          (case properties w (property ov) of
             None \<Rightarrow> Inl NullPointer
           | Some p \<Rightarrow>
               UpdateSmooth env this trigger_paired
                 (w\<lparr>properties := (properties w)(property ov \<mapsto> p\<lparr>smooth := flag\<rparr>)\<rparr>)))"

section \<open>Correlation at a seed vertex\<close>

text \<open>\<^verbatim>\<open>MRIFseq_vox(mri, x, y, z, f)\<close>, with the bounds of the volume checked.\<close>

definition MRIFseq_vox :: "mri \<Rightarrow> int \<Rightarrow> int \<Rightarrow> int \<Rightarrow> int \<Rightarrow> real option" where
  "MRIFseq_vox m x y z f =
     (if 0 \<le> x \<and> x < mri_width m \<and> 0 \<le> y \<and> y < mri_height m \<and> 0 \<le> z \<and> z < mri_depth m
         \<and> 0 \<le> f \<and> f < mri_nframes m
      then Some (mri_voxels m x y z f) else None)"

text \<open>The sample read at lines 236-241 (\<open>i = 0\<close>) and 244-251.\<close>

definition correlation_sample :: "mri \<Rightarrow> int \<Rightarrow> int \<Rightarrow> int \<Rightarrow> int \<Rightarrow> real option" where
  "correlation_sample m nVertex nVertexOffset nDataOffset i =
     (if mri_height m > 1
      then MRIFseq_vox m (nVertex + nVertexOffset) (i + nDataOffset) 0 0
      else MRIFseq_vox m (nVertex + nVertexOffset) 0 0 (i + nDataOffset))"

definition correlation_row :: "mri \<Rightarrow> int \<Rightarrow> int \<Rightarrow> int \<Rightarrow> int \<Rightarrow> real list option" where
  "correlation_row m nVertex nVertexOffset nDataOffset n =
     those (map (\<lambda>i. correlation_sample m nVertex nVertexOffset nDataOffset (int i)) [0..<nat n])"

text \<open>Lines 229-272 of \<^verbatim>\<open>UpdateCorrelationAtVertex\<close>: the overlay's own buffers. The result
  carries the hemisphere after line 231.\<close>

definition correlation_fill :: "int \<Rightarrow> int \<Rightarrow> overlay \<Rightarrow> fault + overlay \<times> int" where
  "correlation_fill nVertex nHemisphere_in ov =
     (case surface ov of
        None \<Rightarrow> Inl NullPointer
      | Some surf \<Rightarrow>
     (let nHemisphere = (if nHemisphere_in = - 1 then hemisphere surf else nHemisphere_in);
          nVertexOffset = nHemisphere * nDataSize ov;
          nDataOffset = hemisphere surf * nDataSize ov
      in
     (case mriCorrelation ov of
        None \<Rightarrow> Inl NullPointer
      | Some m \<Rightarrow>
     (case correlation_sample m nVertex nVertexOffset nDataOffset 0 of
        None \<Rightarrow> Inl OutOfBounds
      | Some x0 \<Rightarrow>
     (case correlation_row m nVertex nVertexOffset nDataOffset (nDataSize ov) of
        None \<Rightarrow> Inl OutOfBounds
      | Some row \<Rightarrow>
     (case fData ov of
        None \<Rightarrow> Inl NullPointer
      | Some d \<Rightarrow>
     (case memcpy d row 0 (nDataSize ov) of
        None \<Rightarrow> Inl OutOfBounds
      | Some d' \<Rightarrow>
     (case fDataRaw ov of
        None \<Rightarrow> Inl NullPointer
      | Some r \<Rightarrow>
     (case memcpy r d' 0 (nDataSize ov) of
        None \<Rightarrow> Inl OutOfBounds
      | Some r' \<Rightarrow>
     (case fDataUnsmoothed ov of
        None \<Rightarrow> Inl NullPointer
      | Some u \<Rightarrow>
     (case memcpy u d' 0 (nDataSize ov) of
        None \<Rightarrow> Inl OutOfBounds
      | Some u' \<Rightarrow>
     (case minmax_loop row (x0, x0) of
        (mx, mn) \<Rightarrow>
          Inr (ov\<lparr>fData := Some d', fDataRaw := Some r', fDataUnsmoothed := Some u',
                   dMaxValue := mx, dMinValue := mn\<rparr>, nHemisphere)))))))))))))"

text \<open>Lines 263-272: smoothing, the ready flag, and the color-map reset when the range
  before the call was empty.\<close>

definition correlation_ready :: "env \<Rightarrow> nat \<Rightarrow> real \<Rightarrow> world \<Rightarrow> fault + world" where
  "correlation_ready env this old_range w =
     (case smooth_if_enabled env this w of
        Inl e \<Rightarrow> Inl e
      | Inr w1 \<Rightarrow>
          (case overlays w1 this of
             None \<Rightarrow> Inl NullPointer
           | Some ov \<Rightarrow>
               (let w2 = put_overlay this (ov\<lparr>bCorrelationDataReady := True\<rparr>) w1
                in if old_range \<le> 0 then property_Reset (property ov) w2 else Inr w2)))"

text \<open>\<^verbatim>\<open>SurfaceOverlay::UpdateCorrelationAtVertex(int nVertex, int nHemisphere)\<close>, lines
  227-283. The method calls itself on the paired overlay, which may call back; the first
  argument bounds the depth of these calls, and the result is \<open>None\<close> when the bound is
  reached.\<close>

fun UpdateCorrelationAtVertex ::
  "nat \<Rightarrow> env \<Rightarrow> nat \<Rightarrow> int \<Rightarrow> int \<Rightarrow> world \<Rightarrow> (fault + world) option" where
  "UpdateCorrelationAtVertex 0 env this nVertex nHemisphere_in w = None"
| "UpdateCorrelationAtVertex (Suc depth) env this nVertex nHemisphere_in w =
     (case overlays w this of
        None \<Rightarrow> Some (Inl NullPointer)
      | Some ov \<Rightarrow>
     (case correlation_fill nVertex nHemisphere_in ov of
        Inl e \<Rightarrow> Some (Inl e)
      | Inr (ov1, nHemisphere) \<Rightarrow>
     (case correlation_ready env this (dMaxValue ov - dMinValue ov) (put_overlay this ov1 w) of
        Inl e \<Rightarrow> Some (Inl e)
      | Inr w1 \<Rightarrow>
     (case overlays w1 this of
        None \<Rightarrow> Some (Inl NullPointer)
      | Some ov2 \<Rightarrow>
     (case surface ov2 of
        None \<Rightarrow> Some (Inl NullPointer)
      | Some surf \<Rightarrow>
     (case (if nHemisphere = hemisphere surf then overlayPaired ov2 else None) of
        None \<Rightarrow> Some (notify_update this w1)
      | Some b \<Rightarrow>
          (case blockSignals b True w1 of
             Inl e \<Rightarrow> Some (Inl e)
           | Inr w2 \<Rightarrow>
               (case UpdateCorrelationAtVertex depth env b nVertex nHemisphere w2 of
                  None \<Rightarrow> None
                | Some (Inl e) \<Rightarrow> Some (Inl e)
                | Some (Inr w3) \<Rightarrow>
                    (case blockSignals b False w3 of
                       Inl e \<Rightarrow> Some (Inl e)
                     | Inr w4 \<Rightarrow> Some (notify_update this w4))))))))))"

text \<open>The row that lines 233-251 extract for an overlay, the seed vertex \<open>nVertex\<close> and the
  hemisphere \<open>nHemisphere\<close> of the seed: the columns are those of the overlay's own
  hemisphere.\<close>

definition own_row :: "overlay \<Rightarrow> int \<Rightarrow> int \<Rightarrow> real list option" where
  "own_row ov nVertex nHemisphere =
     (case surface ov of
        None \<Rightarrow> None
      | Some surf \<Rightarrow>
          (case mriCorrelation ov of
             None \<Rightarrow> None
           | Some m \<Rightarrow>
               correlation_row m nVertex (nHemisphere * nDataSize ov)
                 (hemisphere surf * nDataSize ov) (nDataSize ov)))"

section \<open>Compute-correlation mode\<close>

definition read_at :: "real list \<Rightarrow> int \<Rightarrow> real option" where
  "read_at xs i = (if 0 \<le> i \<and> i < int (length xs) then Some (xs ! nat i) else None)"

text \<open>Lines 408-411: the signal of vertex \<open>i\<close> over the frames, \<^verbatim>\<open>m_fDataRaw[i+j*m_nDataSize]\<close>.\<close>

definition vertex_signal :: "real list \<Rightarrow> int \<Rightarrow> int \<Rightarrow> int \<Rightarrow> real list option" where
  "vertex_signal raw n f i = those (map (\<lambda>j. read_at raw (i + int j * n)) [0..<nat f])"

text \<open>Lines 406-413: the coefficient of every vertex; \<^verbatim>\<open>m_fCorrelationDataBuffer\<close> is left
  holding the signal of the last vertex.\<close>

fun coefficient_loop ::
  "env \<Rightarrow> real list \<Rightarrow> real list \<Rightarrow> int \<Rightarrow> int \<Rightarrow> nat list \<Rightarrow> real list \<Rightarrow>
     fault + real list \<times> real list" where
  "coefficient_loop env src raw n f [] buf = Inr ([], buf)"
| "coefficient_loop env src raw n f (i # is) buf =
     (case vertex_signal raw n f (int i) of
        None \<Rightarrow> Inl OutOfBounds
      | Some sig \<Rightarrow>
          (case memcpy buf sig 0 (int (length sig)) of
             None \<Rightarrow> Inl OutOfBounds
           | Some buf' \<Rightarrow>
               (case coefficient_loop env src raw n f is buf' of
                  Inl e \<Rightarrow> Inl e
                | Inr (cs, buf'') \<Rightarrow>
                    Inr (CalculateCorrelationCoefficient env src buf' f # cs, buf''))))"

text \<open>Lines 400-414 of \<^verbatim>\<open>UpdateCorrelationCoefficient\<close>, on the overlay's own fields, for
  the source volume \<open>vol\<close>.\<close>

definition coefficient_fill :: "env \<Rightarrow> layer_mri \<Rightarrow> overlay \<Rightarrow> fault + overlay" where
  "coefficient_fill env vol ov =
     (case fCorrelationSourceData ov of
        None \<Rightarrow> Inl NullPointer
      | Some sd \<Rightarrow>
     (case memcpy sd (cursor_signal vol) 0 (number_of_frames vol) of
        None \<Rightarrow> Inl OutOfBounds
      | Some sd' \<Rightarrow>
     (case fDataRaw ov of
        None \<Rightarrow> Inl NullPointer
      | Some raw \<Rightarrow>
     (case fCorrelationDataBuffer ov of
        None \<Rightarrow> Inl NullPointer
      | Some buf \<Rightarrow>
     (case coefficient_loop env sd' raw (nDataSize ov) (nNumOfFrames ov)
             [0..<nat (nDataSize ov)] buf of
        Inl e \<Rightarrow> Inl e
      | Inr (cs, buf') \<Rightarrow>
     (case fData ov of
        None \<Rightarrow> Inl NullPointer
      | Some d \<Rightarrow>
     (case memcpy d cs 0 (nDataSize ov) of
        None \<Rightarrow> Inl OutOfBounds
      | Some d' \<Rightarrow>
     (case fDataUnsmoothed ov of
        None \<Rightarrow> Inl NullPointer
      | Some u \<Rightarrow>
     (case memcpy u d' 0 (nDataSize ov) of
        None \<Rightarrow> Inl OutOfBounds
      | Some u' \<Rightarrow>
          Inr (ov\<lparr>fCorrelationSourceData := Some sd', fCorrelationDataBuffer := Some buf',
                   fData := Some d', fDataUnsmoothed := Some u'\<rparr>))))))))))"

text \<open>\<^verbatim>\<open>SurfaceOverlay::UpdateCorrelationCoefficient()\<close>, lines 396-420.\<close>

definition UpdateCorrelationCoefficient :: "env \<Rightarrow> nat \<Rightarrow> world \<Rightarrow> fault + world" where
  "UpdateCorrelationCoefficient env this w =
     (case overlays w this of
        None \<Rightarrow> Inl NullPointer
      | Some ov \<Rightarrow>
          (case (if bComputeCorrelation ov then volumeCorrelationSource ov else None) of
             None \<Rightarrow> Inr w
           | Some vol \<Rightarrow>
               if number_of_frames vol = nNumOfFrames ov
               then
                 (case coefficient_fill env vol ov of
                    Inl e \<Rightarrow> Inl e
                  | Inr ov' \<Rightarrow>
                      (case smooth_if_enabled env this (put_overlay this ov' w) of
                         Inl e \<Rightarrow> Inl e
                       | Inr w1 \<Rightarrow> notify_update this w1))
               else Inr w))"

text \<open>\<^verbatim>\<open>SurfaceOverlay::SetComputeCorrelation(bool flag)\<close>, lines 383-394.\<close>

definition SetComputeCorrelation :: "env \<Rightarrow> nat \<Rightarrow> bool \<Rightarrow> world \<Rightarrow> fault + world" where
  "SetComputeCorrelation env this flag w =
     (case overlays w this of
        None \<Rightarrow> Inl NullPointer
      | Some ov \<Rightarrow>
          (let w1 = put_overlay this (ov\<lparr>bComputeCorrelation := flag\<rparr>) w
           in if flag then UpdateCorrelationCoefficient env this w1
              else SetActiveFrame env this (nActiveFrame ov) w1))"

section \<open>Loaded overlays\<close>

text \<open>The layout of the buffers after \<^verbatim>\<open>InitializeData(data, nvertices, nframes)\<close>: the
  working and the unsmoothed buffer hold one frame, the raw buffer all frames, the two
  correlation buffers one sample for each frame, and the active frame is one of the
  frames.\<close>

definition has_length :: "real list option \<Rightarrow> int \<Rightarrow> bool" where
  "has_length buf n = (case buf of None \<Rightarrow> False | Some xs \<Rightarrow> int (length xs) = n)"

definition loaded :: "overlay \<Rightarrow> bool" where
  "loaded ov =
     (0 < nDataSize ov \<and> 1 \<le> nNumOfFrames ov
      \<and> 0 \<le> nActiveFrame ov \<and> nActiveFrame ov < nNumOfFrames ov
      \<and> has_length (fData ov) (nDataSize ov)
      \<and> has_length (fDataUnsmoothed ov) (nDataSize ov)
      \<and> has_length (fDataRaw ov) (nDataSize ov * nNumOfFrames ov)
      \<and> has_length (fCorrelationSourceData ov) (nNumOfFrames ov)
      \<and> has_length (fCorrelationDataBuffer ov) (nNumOfFrames ov)
      \<and> surface ov \<noteq> None)"

section \<open>Example meshes, environments and worlds\<close>

text \<open>A smoothing operator for the examples: on a mesh whose vertices are all neighbours of
  each other, averaging every vertex with its neighbours gives every vertex the mean.\<close>

definition mean_smooth :: "layer_surface \<Rightarrow> real list \<Rightarrow> int \<Rightarrow> (nat \<Rightarrow> real) option" where
  "mean_smooth surf xs nSteps = Some (\<lambda>_. sum_list xs / real (length xs))"

definition ex_env :: env where
  "ex_env = \<lparr>MRIallocSequence = (\<lambda>_. True), MRISsmoothMRI = mean_smooth,
             MRIreadHeader = (\<lambda>_. None), MRIread = (\<lambda>_. None),
             CalculateCorrelationCoefficient = (\<lambda>_ _ _. 0),
             heap_junk = (\<lambda>_. 7), default_nSteps = - 1\<rparr>"

definition ex_surface :: "int \<Rightarrow> layer_surface" where
  "ex_surface h = \<lparr>surface_id = nat h, hemisphere = h, nvertices = 2, vertex_vals = [1, 2]\<rparr>"

definition ex_property :: "bool \<Rightarrow> overlay_property" where
  "ex_property sm = \<lparr>smooth = sm, smooth_steps = 1, colormap_resets = 0\<rparr>"

text \<open>A world with nothing in it, and a world holding one overlay on the left-hemisphere
  mesh, before any data is loaded into it.\<close>

definition empty_world :: world where
  "empty_world = \<lparr>overlays = Map.empty, properties = Map.empty, cerr = [], events = [],
                  deleted_properties = [], freed_mris = []\<rparr>"

definition ex_world :: "bool \<Rightarrow> world" where
  "ex_world sm = empty_world\<lparr>overlays := [0 \<mapsto> new_overlay (ex_surface 0) 0],
                             properties := [0 \<mapsto> ex_property sm]\<rparr>"

text \<open>The overlay after loading two frames \<open>[1, 2]\<close> and \<open>[3, 4]\<close> on two vertices.\<close>

definition ex_loaded_overlay :: overlay where
  "ex_loaded_overlay =
     (new_overlay (ex_surface 0) 0)
       \<lparr>fData := Some [1, 2], fDataRaw := Some [1, 2, 3, 4], fDataUnsmoothed := Some [1, 2],
        dMaxValue := 2, dMinValue := 1, nDataSize := 2, nNumOfFrames := 2,
        fCorrelationSourceData := Some [0, 0], fCorrelationDataBuffer := Some [7, 7]\<rparr>"

definition ex_loaded :: world where
  "ex_loaded = empty_world\<lparr>overlays := [0 \<mapsto> ex_loaded_overlay],
                           properties := [0 \<mapsto> (ex_property False)\<lparr>colormap_resets := 1\<rparr>]\<rparr>"




text \<open>A correlation matrix over two hemispheres of one vertex each, and two overlays paired
  on it: overlay 0 on the left hemisphere, overlay 1 on the right.\<close>

definition ex_mri :: mri where
  "ex_mri = \<lparr>mri_id = 5, mri_width = 2, mri_height = 2, mri_depth = 1, mri_nframes = 1,
             mri_voxels = (\<lambda>x y z f. if x = y then 1 else 1 / 2)\<rparr>"

definition ex_paired_overlay :: "int \<Rightarrow> nat \<Rightarrow> overlay" where
  "ex_paired_overlay h partner =
     (new_overlay ((ex_surface h)\<lparr>nvertices := 1, vertex_vals := [0]\<rparr>) 0)
       \<lparr>fData := Some [0], fDataRaw := Some [0], fDataUnsmoothed := Some [0],
        nDataSize := 1, bCorrelationData := True, mriCorrelation := Some ex_mri,
        overlayPaired := Some partner\<rparr>"

definition ex_paired :: world where
  "ex_paired = empty_world\<lparr>overlays := [0 \<mapsto> ex_paired_overlay 0 1, 1 \<mapsto> ex_paired_overlay 1 0],
                           properties := [0 \<mapsto> ex_property False]\<rparr>"

section \<open>Arrays, the minimum-maximum loop and smoothing\<close>

lemma minmax_loop_fold:
  "mn \<le> mx \<Longrightarrow> minmax_loop xs (mx, mn) = (fold max xs mx, fold min xs mn)"
proof (induction xs arbitrary: mx mn)
  case Nil
  then show ?case by simp
next
  case (Cons x xs)
  then show ?case by (auto simp: max_def min_def)
qed

lemma minmax_loop_Max_Min:
  "minmax_loop (x # xs) (x, x) = (Max (set (x # xs)), Min (set (x # xs)))"
  by (simp add: minmax_loop_fold Max.set_eq_fold[symmetric] Min.set_eq_fold[symmetric])

lemma slice_whole: "0 \<le> n \<Longrightarrow> int (length xs) = n \<Longrightarrow> slice xs 0 n = Some xs"
  by (simp add: slice_def)

lemma memcpy_exact:
  "slice src off n = Some ys \<Longrightarrow> int (length dst) = n \<Longrightarrow> memcpy dst src off n = Some ys"
  by (simp add: memcpy_def)

lemma slice_length: "slice xs off n = Some ys \<Longrightarrow> int (length ys) = n"
  by (auto simp: slice_def split: if_splits)

lemma length_new_float: "int (length (new_float env n)) = max 0 n"
  by (simp add: new_float_def)



lemma SmoothData_None_Inr:
  assumes "SmoothData env this n None w = Inr (w', r)" and "overlays w this = Some ov"
  shows "w' = log_cerr ''Can not allocate mri'' w
         \<or> (\<exists>d'. w' = put_overlay this (ov\<lparr>fData := Some d'\<rparr>) w)"
  using assms unfolding SmoothData_def
  by (simp split: if_splits option.splits) blast+

lemma smooth_if_enabled_Inr:
  assumes "smooth_if_enabled env this w = Inr w'" and "overlays w this = Some ov"
  shows "w' = w \<or> w' = log_cerr ''Can not allocate mri'' w
         \<or> (\<exists>d'. w' = put_overlay this (ov\<lparr>fData := Some d'\<rparr>) w)"
proof -
  from assms obtain p where p: "properties w (property ov) = Some p"
    by (auto simp: smooth_if_enabled_def split: option.splits)
  show ?thesis
  proof (cases "smooth p")
    case False
    with assms p show ?thesis by (simp add: smooth_if_enabled_def)
  next
    case True
    with assms p have "SmoothData_default env this w = Inr w'"
      by (simp add: smooth_if_enabled_def)
    then obtain r where "SmoothData env this (default_nSteps env) None w = Inr (w', r)"
      by (auto simp: SmoothData_default_def split: sum.splits)
    from SmoothData_None_Inr[OF this assms(2)] show ?thesis by blast
  qed
qed

lemma smooth_if_enabled_off:
  "overlays w this = Some ov \<Longrightarrow> properties w (property ov) = Some p \<Longrightarrow> \<not> smooth p
   \<Longrightarrow> smooth_if_enabled env this w = Inr w"
  by (simp add: smooth_if_enabled_def)

lemma select_frame_slice:
  assumes "fData ov = Some d" "fDataRaw ov = Some raw" "fDataUnsmoothed ov = Some u"
      and "int (length d) = nDataSize ov" "int (length u) = nDataSize ov"
      and "0 < nDataSize ov" "0 \<le> k" "k * nDataSize ov + nDataSize ov \<le> int (length raw)"
  shows "\<exists>fr. slice raw (k * nDataSize ov) (nDataSize ov) = Some fr \<and>
           select_frame k ov =
             Inr (ov\<lparr>nActiveFrame := k, fData := Some fr, fDataUnsmoothed := Some fr,
                     dMaxValue := Max (set fr), dMinValue := Min (set fr)\<rparr>)"
proof -
  define n where "n = nDataSize ov"
  define fr where "fr = take (nat n) (drop (nat (k * n)) raw)"
  have sl: "slice raw (k * n) n = Some fr"
    using assms by (simp add: slice_def fr_def n_def)
  have len: "int (length fr) = n" using sl by (rule slice_length)
  have m1: "memcpy d raw (k * n) n = Some fr"
    using sl assms(4) by (simp add: memcpy_exact n_def)
  have m2: "memcpy u fr 0 n = Some fr"
    using len assms(5,6) by (simp add: memcpy_exact slice_whole n_def)
  from len assms(6) obtain x xs where fr: "fr = x # xs"
    by (cases fr) (auto simp: n_def)
  have tk: "take (nat n) fr = fr" using len by simp
  have mm: "minmax_loop (take (nat n) fr) (x, x) = (Max (set fr), Min (set fr))"
    unfolding tk unfolding fr by (rule minmax_loop_Max_Min)
  show ?thesis
    using sl m1 m2 mm assms(1-3) fr
    by (simp add: select_frame_def n_def[symmetric])
qed


lemma SetActiveFrame_unsmoothed:
  assumes ov: "overlays w this = Some ov"
      and p: "properties w (property ov) = Some p" "\<not> smooth p"
      and bufs: "fData ov = Some d" "fDataRaw ov = Some raw" "fDataUnsmoothed ov = Some u"
                "int (length d) = nDataSize ov" "int (length u) = nDataSize ov"
      and rng: "0 < nDataSize ov" "0 \<le> k" "k < nNumOfFrames ov"
               "int (length raw) = nDataSize ov * nNumOfFrames ov"
  shows "\<exists>fr. slice raw (k * nDataSize ov) (nDataSize ov) = Some fr \<and>
           SetActiveFrame env this k w =
             Inr (put_overlay this
                   (ov\<lparr>nActiveFrame := k, fData := Some fr, fDataUnsmoothed := Some fr,
                       dMaxValue := Max (set fr), dMinValue := Min (set fr)\<rparr>) w)"
proof -
  have "(k + 1) * nDataSize ov \<le> nNumOfFrames ov * nDataSize ov"
    using rng by (intro mult_right_mono) auto
  then have "k * nDataSize ov + nDataSize ov \<le> int (length raw)"
    using rng(4) by (simp add: algebra_simps)
  from select_frame_slice[OF bufs rng(1,2) this]
  obtain fr where fr: "slice raw (k * nDataSize ov) (nDataSize ov) = Some fr"
    and sel: "select_frame k ov =
             Inr (ov\<lparr>nActiveFrame := k, fData := Some fr, fDataUnsmoothed := Some fr,
                     dMaxValue := Max (set fr), dMinValue := Min (set fr)\<rparr>)"
    by blast
  let ?ov' = "ov\<lparr>nActiveFrame := k, fData := Some fr, fDataUnsmoothed := Some fr,
                     dMaxValue := Max (set fr), dMinValue := Min (set fr)\<rparr>"
  have "smooth_if_enabled env this (put_overlay this ?ov' w) = Inr (put_overlay this ?ov' w)"
    by (rule smooth_if_enabled_off[where ov = ?ov' and p = p])
       (use p in \<open>simp_all add: put_overlay_def\<close>)
  with ov sel rng(3) fr show ?thesis
    by (simp add: SetActiveFrame_def)
qed



lemma memcpy_Some:
  "memcpy dst src off n = Some r \<Longrightarrow>
     0 \<le> off \<and> 0 \<le> n \<and> off + n \<le> int (length src) \<and> n \<le> int (length dst)
     \<and> r = take (nat n) (drop (nat off) src) @ drop (nat n) dst"
  by (auto simp: memcpy_def slice_def split: if_splits option.splits)



lemma SetActiveFrame_clamp:
  "overlays w this = Some ov \<Longrightarrow> nNumOfFrames ov \<le> k
   \<Longrightarrow> SetActiveFrame env this k w = SetActiveFrame env this 0 w"
  by (simp add: SetActiveFrame_def)

section \<open>The examples\<close>

lemmas ex_defs = ex_env_def ex_world_def ex_loaded_def ex_loaded_overlay_def empty_world_def
  new_overlay_def ex_surface_def ex_property_def ex_mri_def ex_paired_def ex_paired_overlay_def
  mean_smooth_def

lemmas op_defs = SetActiveFrame_def select_frame_def smooth_if_enabled_def
  SmoothData_default_def SmoothData_def property_Reset_def put_overlay_def log_cerr_def
  memcpy_def slice_def new_float_def

lemma ex_loaded_reachable:
  "InitializeData ex_env 0 (Some [1, 2, 3, 4]) 2 2 (ex_world False) = Inr ex_loaded"
  by (simp add: InitializeData_def op_defs ex_defs numeral_2_eq_2)

lemma ex_loaded_is_loaded: "loaded ex_loaded_overlay"
  by (simp add: loaded_def has_length_def ex_defs)

section \<open>Frame selection and range\<close>

text \<open>\<^verbatim>\<open>InitializeData(data, N, F)\<close> on an overlay with a mesh and a property object, smoothing
  being disabled: the state it returns, which is the state of a loaded overlay.\<close>

lemma InitializeData_unsmoothed:
  assumes ov: "overlays w this = Some ov"
      and surf: "surface ov = Some surf"
      and p: "properties w (property ov) = Some p" "\<not> smooth p"
      and sz: "0 < N" "1 \<le> F" "int (length raw) = N * F"
  shows "\<exists>f0. slice raw 0 N = Some f0 \<and>
           InitializeData env this (Some raw) N F w =
             Inr (w\<lparr>overlays := (overlays w)(this \<mapsto>
                       ov\<lparr>nDataSize := N, nNumOfFrames := F, fDataRaw := Some raw,
                          nActiveFrame := 0, fData := Some f0, fDataUnsmoothed := Some f0,
                          dMaxValue := Max (set f0), dMinValue := Min (set f0),
                          fCorrelationSourceData := Some (replicate (nat F) 0),
                          fCorrelationDataBuffer := Some (new_float env F)\<rparr>),
                    properties := (properties w)(property ov \<mapsto>
                       p\<lparr>colormap_resets := Suc (colormap_resets p)\<rparr>)\<rparr>)"
proof -
  let ?ovA = "ov\<lparr>nDataSize := N, nNumOfFrames := F, fDataRaw := Some raw,
                  fData := Some (new_float env N),
                  fDataUnsmoothed := Some (new_float env N)\<rparr>"
  let ?wA = "put_overlay this ?ovA w"
  have lenA: "int (length (new_float env N)) = N"
    using sz(1) by (simp add: length_new_float)
  have "\<exists>fr. slice raw (0 * nDataSize ?ovA) (nDataSize ?ovA) = Some fr \<and>
           SetActiveFrame env this 0 ?wA =
             Inr (put_overlay this
                   (?ovA\<lparr>nActiveFrame := 0, fData := Some fr, fDataUnsmoothed := Some fr,
                       dMaxValue := Max (set fr), dMinValue := Min (set fr)\<rparr>) ?wA)"
    by (rule SetActiveFrame_unsmoothed[where p = p and d = "new_float env N"
              and u = "new_float env N"])
       (use p sz lenA in \<open>simp_all add: put_overlay_def\<close>)
  then obtain f0 where f0: "slice raw 0 N = Some f0"
    and s0: "SetActiveFrame env this 0 ?wA =
             Inr (put_overlay this
                   (?ovA\<lparr>nActiveFrame := 0, fData := Some f0, fDataUnsmoothed := Some f0,
                       dMaxValue := Max (set f0), dMinValue := Min (set f0)\<rparr>) ?wA)"
    by auto
  let ?ovB = "?ovA\<lparr>nActiveFrame := 0, fData := Some f0, fDataUnsmoothed := Some f0,
                       dMaxValue := Max (set f0), dMinValue := Min (set f0)\<rparr>"
  let ?p' = "p\<lparr>colormap_resets := Suc (colormap_resets p)\<rparr>"
  let ?wB = "(put_overlay this ?ovB ?wA)\<lparr>properties := (properties w)(property ov \<mapsto> ?p')\<rparr>"
  have rs: "property_Reset (property ov) (put_overlay this ?ovB ?wA) = Inr ?wB"
    using p by (simp add: property_Reset_def put_overlay_def)
  have "InitializeData env this (Some raw) N F w =
          Inr (put_overlay this
                (?ovB\<lparr>fCorrelationSourceData := Some (replicate (nat F) 0),
                      fCorrelationDataBuffer := Some (new_float env F)\<rparr>) ?wB)"
    using ov surf s0 rs by (simp add: InitializeData_def put_overlay_def)
  with f0 show ?thesis by (simp add: put_overlay_def)
qed

lemma InitializeData_loaded:
  assumes "overlays w this = Some ov" and "surface ov = Some surf"
      and "properties w (property ov) = Some p" "\<not> smooth p"
      and "0 < N" "1 \<le> F" "int (length raw) = N * F"
  shows "\<exists>w1 ov1. InitializeData env this (Some raw) N F w = Inr w1
           \<and> overlays w1 this = Some ov1 \<and> loaded ov1 \<and> fDataRaw ov1 = Some raw
           \<and> fData ov1 = fDataUnsmoothed ov1"
proof -
  from InitializeData_unsmoothed[OF assms, of env] obtain f0 where
    f0: "slice raw 0 N = Some f0"
    and init: "InitializeData env this (Some raw) N F w =
             Inr (w\<lparr>overlays := (overlays w)(this \<mapsto>
                       ov\<lparr>nDataSize := N, nNumOfFrames := F, fDataRaw := Some raw,
                          nActiveFrame := 0, fData := Some f0, fDataUnsmoothed := Some f0,
                          dMaxValue := Max (set f0), dMinValue := Min (set f0),
                          fCorrelationSourceData := Some (replicate (nat F) 0),
                          fCorrelationDataBuffer := Some (new_float env F)\<rparr>),
                    properties := (properties w)(property ov \<mapsto>
                       p\<lparr>colormap_resets := Suc (colormap_resets p)\<rparr>)\<rparr>)"
    by blast
  have "int (length f0) = N" using f0 by (rule slice_length)
  with init assms show ?thesis
    by (simp add: loaded_def has_length_def length_new_float)
qed






text \<open>Claim C6 on the code: an index at or above the number of frames selects frame 0
  (\<open>SetActiveFrame_clamp\<close>), but a negative index is not clamped. On the overlay with two
  frames of two vertices, index 2 behaves as index 0, and index -1 reads before the raw
  buffer.\<close>

theorem SetActiveFrame_negative_frame:
  "SetActiveFrame ex_env 0 (- 1) ex_loaded = Inl OutOfBounds \<and>
   SetActiveFrame ex_env 0 0 ex_loaded = Inr ex_loaded \<and>
   SetActiveFrame ex_env 0 2 ex_loaded = Inr ex_loaded"
  by (simp add: op_defs ex_defs)

section \<open>Failures\<close>

text \<open>Claim C8. When the allocation of the intermediate volume fails, or the smoothing
  operator returns no volume, \<^verbatim>\<open>SmoothData\<close> writes one line of diagnostic output and
  returns; no overlay is changed, so the working buffer is untouched, and so is
  \<open>data_out\<close>.\<close>

theorem SmoothData_failure:
  assumes "overlays w this = Some ov"
      and "\<not> MRIallocSequence env (nDataSize ov)
           \<or> (fDataUnsmoothed ov = Some u \<and> slice u 0 (nDataSize ov) = Some src
              \<and> (if nSteps_in < 1 then map_option smooth_steps (properties w (property ov))
                  else Some nSteps_in) = Some nSteps
              \<and> surface ov = Some surf \<and> MRISsmoothMRI env surf src nSteps = None)"
  shows "\<exists>w'. SmoothData env this nSteps_in data_out w = Inr (w', data_out)
           \<and> cerr w' = cerr w @ [''Can not allocate mri'']
           \<and> overlays w' = overlays w
           \<and> map_option fData (overlays w' this) = Some (fData ov)"
  using assms unfolding SmoothData_def
  by (auto simp: log_cerr_def)

text \<open>The theorem at a concrete input.\<close>

theorem SmoothData_failure_witness:
  "(\<exists>w'. SmoothData (ex_env\<lparr>MRIallocSequence := \<lambda>_. False\<rparr>) 0 (- 1) None ex_loaded
            = Inr (w', None)
          \<and> cerr w' = [''Can not allocate mri''] \<and> overlays w' = overlays ex_loaded
          \<and> map_option fData (overlays w' 0) = Some (Some [1, 2]))
   \<and> (\<exists>w'. SmoothData (ex_env\<lparr>MRISsmoothMRI := \<lambda>_ _ _. None\<rparr>) 0 (- 1) None ex_loaded
            = Inr (w', None)
          \<and> cerr w' = [''Can not allocate mri''] \<and> overlays w' = overlays ex_loaded
          \<and> map_option fData (overlays w' 0) = Some (Some [1, 2]))"
  using SmoothData_failure
          [of ex_loaded 0 ex_loaded_overlay "ex_env\<lparr>MRIallocSequence := \<lambda>_. False\<rparr>"
              "[]" "[]" "- 1" 1 "ex_surface 0" None]
        SmoothData_failure
          [of ex_loaded 0 ex_loaded_overlay "ex_env\<lparr>MRISsmoothMRI := \<lambda>_ _ _. None\<rparr>"
              "[1, 2]" "[1, 2]" "- 1" 1 "ex_surface 0" None]
  by (simp add: ex_defs slice_def)

text \<open>Claim C3. When the header of the volume cannot be read, or its width is not twice
  the vertex count, or its height is neither 1 nor twice the vertex count, or its frame
  count is neither 1 nor twice the vertex count, or the full read fails, then
  \<^verbatim>\<open>LoadCorrelationData\<close> returns \<open>False\<close> and no overlay is changed: the correlation
  matrix pointer, the correlation-data flag and the ready flag are as before.\<close>

theorem LoadCorrelationData_failure:
  assumes "overlays w this = Some ov"
      and "MRIreadHeader env filename = None
           \<or> (\<exists>hdr. MRIreadHeader env filename = Some hdr
                \<and> (mri_width hdr \<noteq> 2 * nDataSize ov
                    \<or> (mri_height hdr \<noteq> 1 \<and> mri_height hdr \<noteq> 2 * nDataSize ov)
                    \<or> (mri_nframes hdr \<noteq> 1 \<and> mri_nframes hdr \<noteq> 2 * nDataSize ov)))
           \<or> MRIread env filename = None"
  shows "\<exists>w'. LoadCorrelationData env this filename w = Inr (False, w')
           \<and> overlays w' = overlays w
           \<and> map_option mriCorrelation (overlays w' this) = Some (mriCorrelation ov)
           \<and> map_option bCorrelationData (overlays w' this) = Some (bCorrelationData ov)
           \<and> map_option bCorrelationDataReady (overlays w' this)
               = Some (bCorrelationDataReady ov)"
  using assms unfolding LoadCorrelationData_def
  by (auto simp: log_cerr_def MRIfree_def split: option.splits)

text \<open>The theorem at a concrete input.\<close>

theorem LoadCorrelationData_failure_witness:
  "\<exists>w'. LoadCorrelationData (ex_env\<lparr>MRIreadHeader := \<lambda>_. Some (ex_mri\<lparr>mri_width := 3\<rparr>)\<rparr>) 0
            ''lh.corr.mgh'' ex_paired = Inr (False, w')
         \<and> overlays w' = overlays ex_paired
         \<and> map_option mriCorrelation (overlays w' 0) = Some (Some ex_mri)
         \<and> map_option bCorrelationData (overlays w' 0) = Some True
         \<and> map_option bCorrelationDataReady (overlays w' 0) = Some False"
  using LoadCorrelationData_failure
          [of ex_paired 0 "ex_paired_overlay 0 1"
              "ex_env\<lparr>MRIreadHeader := \<lambda>_. Some (ex_mri\<lparr>mri_width := 3\<rparr>)\<rparr>" "''lh.corr.mgh''"]
  by (simp add: ex_defs)

text \<open>Claim C10. \<^verbatim>\<open>SetComputeCorrelation(true)\<close> on an overlay without a correlation source
  volume, or with one whose frame count differs from the overlay's, sets the mode flag,
  leaves the working buffer as it is and sends no notification; \<^verbatim>\<open>GetRange\<close> then reports
  \<open>[-1, 1]\<close>.\<close>

theorem SetComputeCorrelation_without_source:
  assumes "overlays w this = Some ov"
      and "volumeCorrelationSource ov = None
           \<or> (\<exists>vol. volumeCorrelationSource ov = Some vol
                \<and> number_of_frames vol \<noteq> nNumOfFrames ov)"
  shows "\<exists>w' ov'. SetComputeCorrelation env this True w = Inr w'
           \<and> overlays w' this = Some ov'
           \<and> bComputeCorrelation ov'
           \<and> fData ov' = fData ov
           \<and> events w' = events w
           \<and> GetRange ov' = (- 1, 1)"
proof -
  have "SetComputeCorrelation env this True w =
          Inr (put_overlay this (ov\<lparr>bComputeCorrelation := True\<rparr>) w)"
    using assms unfolding SetComputeCorrelation_def UpdateCorrelationCoefficient_def
    by (auto simp: put_overlay_def)
  then show ?thesis by (simp add: put_overlay_def GetRange_def)
qed

text \<open>The theorem at a concrete input.\<close>

theorem SetComputeCorrelation_without_source_witness:
  "\<exists>w' ov'. SetComputeCorrelation ex_env 0 True ex_loaded = Inr w'
      \<and> overlays w' 0 = Some ov' \<and> bComputeCorrelation ov' \<and> fData ov' = Some [1, 2]
      \<and> events w' = [] \<and> GetRange ov' = (- 1, 1)"
  using SetComputeCorrelation_without_source [of ex_loaded 0 ex_loaded_overlay ex_env]
  by (simp add: ex_defs)

section \<open>Destruction of paired overlays\<close>



section \<open>Correlation at a seed vertex: the paired overlay\<close>

lemma those_length: "those xs = Some ys \<Longrightarrow> length ys = length xs"
  by (induction xs arbitrary: ys) (auto split: option.splits)

lemma correlation_row_length:
  "correlation_row m v vo dof n = Some row \<Longrightarrow> length row = nat n"
  by (auto simp: correlation_row_def dest: those_length)

lemma notify_update_Some:
  "overlays w x = Some X \<Longrightarrow> surface X = Some sx \<Longrightarrow>
   notify_update x w =
     Inr (w\<lparr>events := events w @ [SurfaceUpdateOverlay (surface_id sx)]
                        @ (if signalsBlocked X then [] else [DataUpdated x])\<rparr>)"
  by (simp add: notify_update_def surface_UpdateOverlay_def emit_DataUpdated_def)

lemma correlation_fill_Inr:
  assumes "correlation_fill v h ov = Inr (ov1, hh)"
  shows "\<exists>sf m row u d. surface ov = Some sf
           \<and> hh = (if h = - 1 then hemisphere sf else h)
           \<and> mriCorrelation ov = Some m
           \<and> correlation_row m v (hh * nDataSize ov) (hemisphere sf * nDataSize ov)
                 (nDataSize ov) = Some row
           \<and> fDataUnsmoothed ov1 = Some u \<and> take (nat (nDataSize ov)) u = row
           \<and> fData ov1 = Some d \<and> take (nat (nDataSize ov)) d = row
           \<and> surface ov1 = surface ov \<and> overlayPaired ov1 = overlayPaired ov
           \<and> signalsBlocked ov1 = signalsBlocked ov \<and> property ov1 = property ov
           \<and> nDataSize ov1 = nDataSize ov \<and> mriCorrelation ov1 = mriCorrelation ov"
proof -
  from assms obtain sf where sf: "surface ov = Some sf"
    by (auto simp: correlation_fill_def split: option.splits)
  define g where "g = (if h = - 1 then hemisphere sf else h)"
  from assms sf obtain m x0 row d d' r r' u u' where
    h: "mriCorrelation ov = Some m"
       "correlation_row m v (g * nDataSize ov) (hemisphere sf * nDataSize ov) (nDataSize ov)
          = Some row"
       "fData ov = Some d" "memcpy d row 0 (nDataSize ov) = Some d'"
       "fDataRaw ov = Some r" "memcpy r d' 0 (nDataSize ov) = Some r'"
       "fDataUnsmoothed ov = Some u" "memcpy u d' 0 (nDataSize ov) = Some u'"
       "correlation_sample m v (g * nDataSize ov) (hemisphere sf * nDataSize ov) 0 = Some x0"
    unfolding correlation_fill_def g_def Let_def
    by (simp split: option.splits prod.splits)
  obtain mx mn where mm: "minmax_loop row (x0, x0) = (mx, mn)"
    by (cases "minmax_loop row (x0, x0)") auto
  have res: "ov1 = ov\<lparr>fData := Some d', fDataRaw := Some r', fDataUnsmoothed := Some u',
                       dMaxValue := mx, dMinValue := mn\<rparr>" and hh: "hh = g"
    using assms sf h mm unfolding correlation_fill_def g_def Let_def by simp_all
  have len: "length row = nat (nDataSize ov)" using h(2) by (rule correlation_row_length)
  from memcpy_Some[OF h(4)] have d': "take (nat (nDataSize ov)) d' = row"
    and n0: "0 \<le> nDataSize ov" using len by auto
  from memcpy_Some[OF h(8)] d' have u': "take (nat (nDataSize ov)) u' = row"
    by auto
  show ?thesis using sf h(1,2) res hh d' u' by (simp add: g_def)
qed

lemma correlation_ready_Inr:
  assumes "correlation_ready env this r w = Inr w'" and "overlays w this = Some ov"
  shows "\<exists>dd. overlays w' = (overlays w)(this \<mapsto> ov\<lparr>fData := dd, bCorrelationDataReady := True\<rparr>)
           \<and> events w' = events w
           \<and> (\<forall>q. map_option smooth (properties w' q) = map_option smooth (properties w q))
           \<and> ((\<exists>p. properties w (property ov) = Some p \<and> \<not> smooth p) \<longrightarrow> dd = fData ov)"
proof -
  from assms(1) obtain w1 where
    sm: "smooth_if_enabled env this w = Inr w1"
    by (auto simp: correlation_ready_def split: sum.splits)
  have c: "\<exists>dd. overlays w1 = (overlays w)(this \<mapsto> ov\<lparr>fData := dd\<rparr>)
             \<and> events w1 = events w \<and> properties w1 = properties w
             \<and> ((\<exists>p. properties w (property ov) = Some p \<and> \<not> smooth p) \<longrightarrow> dd = fData ov)"
  proof (cases "\<exists>p. properties w (property ov) = Some p \<and> \<not> smooth p")
    case True
    then obtain p where "properties w (property ov) = Some p" "\<not> smooth p" by blast
    from smooth_if_enabled_off[OF assms(2) this] sm have "w1 = w" by simp
    moreover have "(overlays w)(this \<mapsto> ov\<lparr>fData := fData ov\<rparr>) = overlays w"
      using assms(2) by (auto simp: fun_eq_iff)
    ultimately show ?thesis by (intro exI[of _ "fData ov"]) simp
  next
    case False
    have same: "(overlays w)(this \<mapsto> ov\<lparr>fData := fData ov\<rparr>) = overlays w"
      using assms(2) by (auto simp: fun_eq_iff)
    from smooth_if_enabled_Inr[OF sm assms(2)]
    consider "w1 = w" | "w1 = log_cerr ''Can not allocate mri'' w"
      | d' where "w1 = put_overlay this (ov\<lparr>fData := Some d'\<rparr>) w" by blast
    then show ?thesis
    proof cases
      case 1
      with same False show ?thesis by (intro exI[of _ "fData ov"]) simp
    next
      case 2
      with same False show ?thesis by (intro exI[of _ "fData ov"]) (simp add: log_cerr_def)
    next
      case 3
      with False show ?thesis by (intro exI[of _ "Some d'"]) (auto simp: put_overlay_def)
    qed
  qed
  then obtain dd where
    w1: "overlays w1 = (overlays w)(this \<mapsto> ov\<lparr>fData := dd\<rparr>)"
        "events w1 = events w" "properties w1 = properties w"
        "(\<exists>p. properties w (property ov) = Some p \<and> \<not> smooth p) \<longrightarrow> dd = fData ov"
    by blast
  let ?w2 = "put_overlay this (ov\<lparr>fData := dd, bCorrelationDataReady := True\<rparr>) w1"
  from assms(1) sm w1(1)
  have fin: "w' = ?w2 \<or> property_Reset (property ov) ?w2 = Inr w'"
    by (auto simp: correlation_ready_def Let_def split: if_splits)
  have ov2: "overlays ?w2 = (overlays w)(this \<mapsto> ov\<lparr>fData := dd, bCorrelationDataReady := True\<rparr>)"
    using w1(1) by (simp add: put_overlay_def)
  have ev2: "events ?w2 = events w" and pr2: "properties ?w2 = properties w"
    using w1(2,3) by (simp_all add: put_overlay_def)
  from fin show ?thesis
  proof
    assume "w' = ?w2"
    with ov2 ev2 pr2 w1(4) show ?thesis by (intro exI[of _ dd]) simp
  next
    assume "property_Reset (property ov) ?w2 = Inr w'"
    then obtain p where "properties ?w2 (property ov) = Some p"
      and "w' = ?w2\<lparr>properties := (properties ?w2)(property ov \<mapsto>
                       p\<lparr>colormap_resets := Suc (colormap_resets p)\<rparr>)\<rparr>"
      by (auto simp: property_Reset_def split: option.splits)
    with ov2 ev2 pr2 w1(4) show ?thesis by (intro exI[of _ dd]) simp
  qed
qed

lemma correlation_own:
  assumes X: "overlays w x = Some X"
      and fill: "correlation_fill v h X = Inr (X1, hh)"
      and rdy: "correlation_ready env x r (put_overlay x X1 w) = Inr w1"
  shows "\<exists>X2 sf u. overlays w1 x = Some X2
           \<and> (\<forall>y. y \<noteq> x \<longrightarrow> overlays w1 y = overlays w y)
           \<and> events w1 = events w
           \<and> (\<forall>q. map_option smooth (properties w1 q) = map_option smooth (properties w q))
           \<and> surface X = Some sf \<and> surface X2 = Some sf
           \<and> overlayPaired X2 = overlayPaired X \<and> signalsBlocked X2 = signalsBlocked X
           \<and> hh = (if h = - 1 then hemisphere sf else h)
           \<and> fDataUnsmoothed X2 = Some u
           \<and> Some (take (nat (nDataSize X)) u) = own_row X v hh
           \<and> ((\<exists>p. properties w (property X) = Some p \<and> \<not> smooth p) \<longrightarrow>
                 map_option (take (nat (nDataSize X))) (fData X2) = own_row X v hh)"
proof -
  from correlation_fill_Inr[OF fill] obtain sf m row u d where
    f: "surface X = Some sf" "hh = (if h = - 1 then hemisphere sf else h)"
       "mriCorrelation X = Some m"
       "correlation_row m v (hh * nDataSize X) (hemisphere sf * nDataSize X) (nDataSize X)
          = Some row"
       "fDataUnsmoothed X1 = Some u" "take (nat (nDataSize X)) u = row"
       "fData X1 = Some d" "take (nat (nDataSize X)) d = row"
       "surface X1 = surface X" "overlayPaired X1 = overlayPaired X"
       "signalsBlocked X1 = signalsBlocked X" "property X1 = property X"
    by blast
  have row: "own_row X v hh = Some row"
    using f(1,3,4) by (simp add: own_row_def)
  have here: "overlays (put_overlay x X1 w) x = Some X1" by (simp add: put_overlay_def)
  from correlation_ready_Inr[OF rdy here] obtain dd where
    r: "overlays w1 = (overlays (put_overlay x X1 w))
                        (x \<mapsto> X1\<lparr>fData := dd, bCorrelationDataReady := True\<rparr>)"
       "events w1 = events (put_overlay x X1 w)"
       "\<forall>q. map_option smooth (properties w1 q)
              = map_option smooth (properties (put_overlay x X1 w) q)"
       "(\<exists>p. properties (put_overlay x X1 w) (property X1) = Some p \<and> \<not> smooth p)
          \<longrightarrow> dd = fData X1"
    by blast
  let ?X2 = "X1\<lparr>fData := dd, bCorrelationDataReady := True\<rparr>"
  have 1: "overlays w1 x = Some ?X2" using r(1) by simp
  have 2: "\<forall>y. y \<noteq> x \<longrightarrow> overlays w1 y = overlays w y"
    using r(1) by (simp add: put_overlay_def)
  have 3: "events w1 = events w" using r(2) by (simp add: put_overlay_def)
  have 4: "\<forall>q. map_option smooth (properties w1 q) = map_option smooth (properties w q)"
    using r(3) by (simp add: put_overlay_def)
  have 5: "(\<exists>p. properties w (property X) = Some p \<and> \<not> smooth p) \<longrightarrow>
             map_option (take (nat (nDataSize X))) (fData ?X2) = own_row X v hh"
    using r(4) f(7,8,12) row by (auto simp: put_overlay_def)
  show ?thesis
    using 1 2 3 4 5 f row by (intro exI[of _ ?X2] exI[of _ sf] exI[of _ u]) simp
qed

lemma UpdateCorrelationAtVertex_fill_fault:
  "overlays w x = Some X \<Longrightarrow> correlation_fill v h X = Inl e
   \<Longrightarrow> UpdateCorrelationAtVertex (Suc n) env x v h w = Some (Inl e)"
  by simp

lemma UpdateCorrelationAtVertex_ready_fault:
  "overlays w x = Some X \<Longrightarrow> correlation_fill v h X = Inr (X1, hh)
   \<Longrightarrow> correlation_ready env x (dMaxValue X - dMinValue X) (put_overlay x X1 w) = Inl e
   \<Longrightarrow> UpdateCorrelationAtVertex (Suc n) env x v h w = Some (Inl e)"
  by simp

lemma UpdateCorrelationAtVertex_alone:
  "overlays w x = Some X \<Longrightarrow> correlation_fill v h X = Inr (X1, hh)
   \<Longrightarrow> correlation_ready env x (dMaxValue X - dMinValue X) (put_overlay x X1 w) = Inr w1
   \<Longrightarrow> overlays w1 x = Some X2 \<Longrightarrow> surface X2 = Some sx
   \<Longrightarrow> hh \<noteq> hemisphere sx \<or> overlayPaired X2 = None
   \<Longrightarrow> UpdateCorrelationAtVertex (Suc n) env x v h w = Some (notify_update x w1)"
  by auto

lemma UpdateCorrelationAtVertex_propagate:
  "overlays w x = Some X \<Longrightarrow> correlation_fill v h X = Inr (X1, hh)
   \<Longrightarrow> correlation_ready env x (dMaxValue X - dMinValue X) (put_overlay x X1 w) = Inr w1
   \<Longrightarrow> overlays w1 x = Some X2 \<Longrightarrow> surface X2 = Some sx
   \<Longrightarrow> hh = hemisphere sx \<Longrightarrow> overlayPaired X2 = Some y
   \<Longrightarrow> blockSignals y True w1 = Inr w2
   \<Longrightarrow> UpdateCorrelationAtVertex (Suc n) env x v h w =
        (case UpdateCorrelationAtVertex n env y v hh w2 of
           None \<Rightarrow> None
         | Some (Inl e) \<Rightarrow> Some (Inl e)
         | Some (Inr w3) \<Rightarrow>
             (case blockSignals y False w3 of
                Inl e \<Rightarrow> Some (Inl e)
              | Inr w4 \<Rightarrow> Some (notify_update x w4)))"
  by simp

text \<open>A call that does not propagate: the hemisphere of the seed is not the overlay's own.\<close>

lemma UpdateCorrelationAtVertex_other_hemisphere:
  assumes X: "overlays w x = Some X" and sx: "surface X = Some sx"
      and hh: "hh \<noteq> - 1" "hh \<noteq> hemisphere sx"
  shows "\<exists>r. UpdateCorrelationAtVertex (Suc n) env x v hh w = Some r \<and>
           (\<forall>w'. r = Inr w' \<longrightarrow>
              (\<exists>X' u. overlays w' x = Some X'
                 \<and> (\<forall>y. y \<noteq> x \<longrightarrow> overlays w' y = overlays w y)
                 \<and> events w' = events w @ [SurfaceUpdateOverlay (surface_id sx)]
                                @ (if signalsBlocked X then [] else [DataUpdated x])
                 \<and> signalsBlocked X' = signalsBlocked X
                 \<and> fDataUnsmoothed X' = Some u
                 \<and> Some (take (nat (nDataSize X)) u) = own_row X v hh
                 \<and> ((\<exists>p. properties w (property X) = Some p \<and> \<not> smooth p) \<longrightarrow>
                       map_option (take (nat (nDataSize X))) (fData X') = own_row X v hh)))"
proof (cases "correlation_fill v hh X")
  case (Inl e)
  from UpdateCorrelationAtVertex_fill_fault[OF X this] show ?thesis by simp
next
  case (Inr pr)
  obtain X1 g where fill: "correlation_fill v hh X = Inr (X1, g)"
    using Inr by (cases pr) auto
  show ?thesis
  proof (cases "correlation_ready env x (dMaxValue X - dMinValue X) (put_overlay x X1 w)")
    case (Inl e)
    from UpdateCorrelationAtVertex_ready_fault[OF X fill this] show ?thesis by simp
  next
    case (Inr w1)
    from correlation_own[OF X fill Inr] obtain X2 sf u where
      o: "overlays w1 x = Some X2" "\<forall>y. y \<noteq> x \<longrightarrow> overlays w1 y = overlays w y"
         "events w1 = events w" "surface X = Some sf" "surface X2 = Some sf"
         "signalsBlocked X2 = signalsBlocked X"
         "g = (if hh = - 1 then hemisphere sf else hh)"
         "fDataUnsmoothed X2 = Some u" "Some (take (nat (nDataSize X)) u) = own_row X v g"
         "(\<exists>p. properties w (property X) = Some p \<and> \<not> smooth p) \<longrightarrow>
                 map_option (take (nat (nDataSize X))) (fData X2) = own_row X v g"
      by blast
    have sf: "sf = sx" using o(4) sx by simp
    have g: "g = hh" using o(7) hh(1) by simp
    have s2: "surface X2 = Some sx" using o(5) sf by simp
    have "g \<noteq> hemisphere sx \<or> overlayPaired X2 = None" using g hh(2) by simp
    from UpdateCorrelationAtVertex_alone[OF X fill Inr o(1) s2 this]
    have call: "UpdateCorrelationAtVertex (Suc n) env x v hh w = Some (notify_update x w1)" .
    have nu: "notify_update x w1 =
                Inr (w1\<lparr>events := events w1 @ [SurfaceUpdateOverlay (surface_id sx)]
                                   @ (if signalsBlocked X2 then [] else [DataUpdated x])\<rparr>)"
      by (rule notify_update_Some[OF o(1) s2])
    show ?thesis
      unfolding call nu using o(1,2,3,6,8,9,10) g by simp
  qed
qed

lemmas corr_defs = correlation_fill_def correlation_ready_def correlation_row_def
  correlation_sample_def MRIFseq_vox_def notify_update_def surface_UpdateOverlay_def
  emit_DataUpdated_def blockSignals_def own_row_def

lemma ex_paired_run:
  "\<exists>w'. UpdateCorrelationAtVertex 2 ex_env 0 0 0 ex_paired = Some (Inr w')
      \<and> map_option fData (overlays w' 0) = Some (Some [1])
      \<and> map_option fData (overlays w' 1) = Some (Some [1 / 2])"
  by (simp add: numeral_2_eq_2 corr_defs op_defs ex_defs)

text \<open>Claim C5 as stated fails in the contents of the buffers: the paired overlay is not
  given the contents of the first overlay's working buffer, it extracts the columns of its
  own hemisphere from the row of the seed. With the seed vertex 0 of the left hemisphere,
  the left overlay holds \<open>[1]\<close> and the right overlay \<open>[1/2]\<close>.\<close>

theorem UpdateCorrelationAtVertex_identical_counterexample:
  "(case UpdateCorrelationAtVertex 2 ex_env 0 0 0 ex_paired of
      Some (Inr w') \<Rightarrow>
        map_option fData (overlays w' 0) = Some (Some [1])
        \<and> map_option fData (overlays w' 1) = Some (Some [1 / 2])
        \<and> map_option fData (overlays w' 0) \<noteq> map_option fData (overlays w' 1)
    | _ \<Rightarrow> False)"
  by (simp add: numeral_2_eq_2 corr_defs op_defs ex_defs)

text \<open>Claim C5, amended. Let overlay \<open>a\<close> be paired with overlay \<open>b\<close>, on meshes of different
  hemispheres, and let \<^verbatim>\<open>UpdateCorrelationAtVertex\<close> be called on \<open>a\<close> with the hemisphere of
  \<open>a\<close>'s mesh (given, or by the default -1). Then the call returns within two nested calls,
  and when it returns without a fault: the same update (seed vertex and hemisphere) has
  been made on \<open>b\<close> exactly once, \<open>b\<close>'s unsmoothed buffer holds the row of the seed over
  \<open>b\<close>'s own hemisphere, its working buffer too when smoothing is disabled, the signals of
  \<open>b\<close> are unblocked again, and the notifications of the call are the overlay update of
  \<open>b\<close>'s mesh, the overlay update of \<open>a\<close>'s mesh and the data-updated signal of \<open>a\<close>: no
  data-updated signal of \<open>b\<close>.\<close>

theorem UpdateCorrelationAtVertex_paired:
  assumes A: "overlays w a = Some A" and B: "overlays w b = Some B" and ab: "a \<noteq> b"
      and pa: "overlayPaired A = Some b"
      and sa: "surface A = Some sa" and sb: "surface B = Some sb"
      and hem: "hemisphere sa \<noteq> hemisphere sb" "hemisphere sa \<noteq> - 1"
      and h: "h = hemisphere sa \<or> h = - 1"
  shows "\<exists>r. UpdateCorrelationAtVertex (Suc (Suc n)) env a v h w = Some r \<and>
           (\<forall>w'. r = Inr w' \<longrightarrow>
              (\<exists>A' B' ua ub. overlays w' a = Some A' \<and> overlays w' b = Some B'
                 \<and> fDataUnsmoothed A' = Some ua
                 \<and> Some (take (nat (nDataSize A)) ua) = own_row A v (hemisphere sa)
                 \<and> fDataUnsmoothed B' = Some ub
                 \<and> Some (take (nat (nDataSize B)) ub) = own_row B v (hemisphere sa)
                 \<and> ((\<exists>p. properties w (property B) = Some p \<and> \<not> smooth p) \<longrightarrow>
                       map_option (take (nat (nDataSize B))) (fData B')
                         = own_row B v (hemisphere sa))
                 \<and> \<not> signalsBlocked B'
                 \<and> events w' = events w
                      @ [SurfaceUpdateOverlay (surface_id sb), SurfaceUpdateOverlay (surface_id sa)]
                      @ (if signalsBlocked A then [] else [DataUpdated a])))"
proof (cases "correlation_fill v h A")
  case (Inl e)
  from UpdateCorrelationAtVertex_fill_fault[OF A this] show ?thesis by simp
next
  case (Inr pr)
  obtain A1 g where fill: "correlation_fill v h A = Inr (A1, g)"
    using Inr by (cases pr) auto
  show ?thesis
  proof (cases "correlation_ready env a (dMaxValue A - dMinValue A) (put_overlay a A1 w)")
    case (Inl e)
    from UpdateCorrelationAtVertex_ready_fault[OF A fill this] show ?thesis by simp
  next
    case (Inr w1)
    from correlation_own[OF A fill Inr] obtain A2 sf ua where
      o: "overlays w1 a = Some A2" "\<forall>y. y \<noteq> a \<longrightarrow> overlays w1 y = overlays w y"
         "events w1 = events w"
         "\<forall>q. map_option smooth (properties w1 q) = map_option smooth (properties w q)"
         "surface A = Some sf" "surface A2 = Some sf"
         "overlayPaired A2 = overlayPaired A" "signalsBlocked A2 = signalsBlocked A"
         "g = (if h = - 1 then hemisphere sf else h)"
         "fDataUnsmoothed A2 = Some ua" "Some (take (nat (nDataSize A)) ua) = own_row A v g"
      by blast
    have sf: "sf = sa" using o(5) sa by simp
    have g: "g = hemisphere sa" using o(9) h sf by auto
    have s2: "surface A2 = Some sa" using o(6) sf by simp
    have p2: "overlayPaired A2 = Some b" using o(7) pa by simp
    have B1: "overlays w1 b = Some B" using o(2) ab B by simp
    let ?Bb = "B\<lparr>signalsBlocked := True\<rparr>"
    let ?w2 = "put_overlay b ?Bb w1"
    have blk: "blockSignals b True w1 = Inr ?w2" using B1 by (simp add: blockSignals_def)
    note step = UpdateCorrelationAtVertex_propagate[OF A fill Inr o(1) s2 g p2 blk]
    have Bb: "overlays ?w2 b = Some ?Bb" by (simp add: put_overlay_def)
    have sBb: "surface ?Bb = Some sb" using sb by simp
    have hh: "g \<noteq> - 1" "g \<noteq> hemisphere sb" using g hem by simp_all
    from UpdateCorrelationAtVertex_other_hemisphere[OF Bb sBb hh, of n env v]
    obtain r where r: "UpdateCorrelationAtVertex (Suc n) env b v g ?w2 = Some r"
      and rr: "\<forall>w'. r = Inr w' \<longrightarrow>
              (\<exists>X' u. overlays w' b = Some X'
                 \<and> (\<forall>y. y \<noteq> b \<longrightarrow> overlays w' y = overlays ?w2 y)
                 \<and> events w' = events ?w2 @ [SurfaceUpdateOverlay (surface_id sb)]
                                @ (if signalsBlocked ?Bb then [] else [DataUpdated b])
                 \<and> signalsBlocked X' = signalsBlocked ?Bb
                 \<and> fDataUnsmoothed X' = Some u
                 \<and> Some (take (nat (nDataSize ?Bb)) u) = own_row ?Bb v g
                 \<and> ((\<exists>p. properties ?w2 (property ?Bb) = Some p \<and> \<not> smooth p) \<longrightarrow>
                       map_option (take (nat (nDataSize ?Bb))) (fData X') = own_row ?Bb v g))"
      by blast
    show ?thesis
    proof (cases r)
      case (Inl e)
      with step r show ?thesis by simp
    next
      case (Inr w3)
      with rr obtain B2 ub where
        i: "overlays w3 b = Some B2" "\<forall>y. y \<noteq> b \<longrightarrow> overlays w3 y = overlays ?w2 y"
           "events w3 = events ?w2 @ [SurfaceUpdateOverlay (surface_id sb)]"
           "fDataUnsmoothed B2 = Some ub"
           "Some (take (nat (nDataSize B)) ub) = own_row ?Bb v g"
           "(\<exists>p. properties ?w2 (property B) = Some p \<and> \<not> smooth p) \<longrightarrow>
                       map_option (take (nat (nDataSize B))) (fData B2) = own_row ?Bb v g"
        by auto
      have rowB: "own_row ?Bb v g = own_row B v (hemisphere sa)"
        by (simp add: own_row_def g split: option.splits)
      let ?B3 = "B2\<lparr>signalsBlocked := False\<rparr>"
      let ?w4 = "put_overlay b ?B3 w3"
      have unb: "blockSignals b False w3 = Inr ?w4" using i(1) by (simp add: blockSignals_def)
      have A4: "overlays ?w4 a = Some A2"
        using i(2) ab o(1) by (simp add: put_overlay_def)
      have call: "UpdateCorrelationAtVertex (Suc (Suc n)) env a v h w
                    = Some (notify_update a ?w4)"
        using step r Inr unb by simp
      have nu: "notify_update a ?w4 =
                  Inr (?w4\<lparr>events := events ?w4 @ [SurfaceUpdateOverlay (surface_id sa)]
                                   @ (if signalsBlocked A2 then [] else [DataUpdated a])\<rparr>)"
        by (rule notify_update_Some[OF A4 s2])
      have off: "(\<exists>p. properties w (property B) = Some p \<and> \<not> smooth p) \<longrightarrow>
                   (\<exists>p. properties ?w2 (property B) = Some p \<and> \<not> smooth p)"
      proof
        assume "\<exists>p. properties w (property B) = Some p \<and> \<not> smooth p"
        then obtain p where p: "properties w (property B) = Some p" "\<not> smooth p" by blast
        from o(4) have "map_option smooth (properties w1 (property B))
                          = map_option smooth (properties w (property B))" by blast
        with p obtain p' where "properties w1 (property B) = Some p'" "\<not> smooth p'"
          by (cases "properties w1 (property B)") auto
        then show "\<exists>p. properties ?w2 (property B) = Some p \<and> \<not> smooth p"
          by (auto simp: put_overlay_def)
      qed
      have ev: "events ?w4 = events w @ [SurfaceUpdateOverlay (surface_id sb)]"
        using i(3) o(3) by (simp add: put_overlay_def)
      have B4: "overlays ?w4 b = Some ?B3" by (simp add: put_overlay_def)
      show ?thesis
        unfolding call nu
        using A4 B4 ev o(8,10,11) g i(4,5,6) rowB off ab
        by (simp add: put_overlay_def)
    qed
  qed
qed

text \<open>The theorem at a concrete input.\<close>

theorem UpdateCorrelationAtVertex_paired_witness:
  "\<exists>w' A' B' ua ub.
      UpdateCorrelationAtVertex 2 ex_env 0 0 0 ex_paired = Some (Inr w')
      \<and> overlays w' 0 = Some A' \<and> overlays w' 1 = Some B'
      \<and> fDataUnsmoothed A' = Some ua \<and> take 1 ua = [1]
      \<and> fDataUnsmoothed B' = Some ub \<and> take 1 ub = [1 / 2]
      \<and> map_option (take 1) (fData B') = Some [1 / 2]
      \<and> \<not> signalsBlocked B'
      \<and> events w' = [SurfaceUpdateOverlay 1, SurfaceUpdateOverlay 0, DataUpdated 0]"
proof -
  from ex_paired_run obtain W where
    run: "UpdateCorrelationAtVertex 2 ex_env 0 0 0 ex_paired = Some (Inr W)" by blast
  have run': "UpdateCorrelationAtVertex (Suc (Suc 0)) ex_env 0 0 0 ex_paired = Some (Inr W)"
    using run by (simp only: numeral_2_eq_2)
  have rowA: "own_row (ex_paired_overlay 0 1) 0 0 = Some [1]"
    and rowB: "own_row (ex_paired_overlay 1 0) 0 0 = Some [1 / 2]"
    by (simp_all add: corr_defs ex_defs)
  from UpdateCorrelationAtVertex_paired
         [of ex_paired 0 "ex_paired_overlay 0 1" 1 "ex_paired_overlay 1 0"
             "(ex_surface 0)\<lparr>nvertices := 1, vertex_vals := [0]\<rparr>"
             "(ex_surface 1)\<lparr>nvertices := 1, vertex_vals := [0]\<rparr>" 0 0 ex_env 0]
       run' rowA rowB
  show ?thesis
    unfolding run
    by (simp add: ex_defs)
qed

text \<open>The condition on the hemispheres is needed. When both meshes are of the same
  hemisphere, line 274 holds in the paired overlay too and the update is propagated back:
  whatever bound is put on the depth of the calls, the call does not return without a
  fault.\<close>

lemma UpdateCorrelationAtVertex_same_hemisphere:
  assumes "overlays w a = Some A" and "overlays w b = Some B"
      and "overlayPaired A = Some b" and "overlayPaired B = Some a"
      and "surface A = Some sa" and "surface B = Some sb"
      and "hemisphere sa = g" and "hemisphere sb = g" and "g \<noteq> - 1"
  shows "UpdateCorrelationAtVertex n env a v g w \<noteq> Some (Inr w')"
  using assms
proof (induction n arbitrary: w a b A B sa sb w')
  case 0
  then show ?case by simp
next
  case (Suc n)
  note A = Suc.prems(1)
  show ?case
  proof (cases "correlation_fill v g A")
    case (Inl e)
    from UpdateCorrelationAtVertex_fill_fault[OF A this] show ?thesis by simp
  next
    case (Inr pr)
    obtain A1 hh where fill: "correlation_fill v g A = Inr (A1, hh)"
      using Inr by (cases pr) auto
    show ?thesis
    proof (cases "correlation_ready env a (dMaxValue A - dMinValue A) (put_overlay a A1 w)")
      case (Inl e)
      from UpdateCorrelationAtVertex_ready_fault[OF A fill this] show ?thesis by simp
    next
      case (Inr w1)
      from correlation_own[OF A fill Inr] obtain A2 sf where
        o: "overlays w1 a = Some A2" "\<forall>y. y \<noteq> a \<longrightarrow> overlays w1 y = overlays w y"
           "surface A = Some sf" "surface A2 = Some sf"
           "overlayPaired A2 = overlayPaired A"
           "hh = (if g = - 1 then hemisphere sf else g)"
        by blast
      have s2: "surface A2 = Some sa" using o(3,4) Suc.prems(5) by simp
      have hh: "hh = hemisphere sa" using o(6) Suc.prems(7,9) by simp
      have p2: "overlayPaired A2 = Some b" using o(5) Suc.prems(3) by simp
      obtain B1 where B1: "overlays w1 b = Some B1" "surface B1 = Some sb"
        "overlayPaired B1 = Some a"
      proof (cases "b = a")
        case True
        with Suc.prems(1,2) have "B = A" by simp
        with True o(1) s2 p2 Suc.prems(5,6) that show ?thesis by simp
      next
        case False
        with o(2) Suc.prems(2,4,6) that show ?thesis by simp
      qed
      let ?Bb = "B1\<lparr>signalsBlocked := True\<rparr>"
      let ?w2 = "put_overlay b ?Bb w1"
      have blk: "blockSignals b True w1 = Inr ?w2" using B1(1) by (simp add: blockSignals_def)
      note step = UpdateCorrelationAtVertex_propagate[OF A fill Inr o(1) s2 hh p2 blk]
      have b2: "overlays ?w2 b = Some ?Bb" by (simp add: put_overlay_def)
      obtain A3 where A3: "overlays ?w2 a = Some A3" "surface A3 = Some sa"
        "overlayPaired A3 = Some b"
      proof (cases "b = a")
        case True
        with Suc.prems(1,2) have "B = A" by simp
        with True b2 B1 Suc.prems(5,6) that[of ?Bb] show ?thesis by simp
      next
        case False
        with o(1) s2 p2 that[of A2] show ?thesis by (simp add: put_overlay_def)
      qed
      have inner: "UpdateCorrelationAtVertex n env b v g ?w2 \<noteq> Some (Inr w3)" for w3
        by (rule Suc.IH[OF b2 A3(1) _ A3(3) _ A3(2) Suc.prems(8,7,9)])
           (use B1 in simp_all)
      have g: "hh = g" using hh Suc.prems(7) by simp
      show ?thesis
      proof (cases "UpdateCorrelationAtVertex n env b v g ?w2")
        case None
        with step g show ?thesis by simp
      next
        case (Some r)
        with inner obtain e where "r = Inl e" by (cases r) auto
        with step g Some show ?thesis by simp
      qed
    qed
  qed
qed

section \<open>Compute-correlation mode on a loaded overlay\<close>










lemmas mode_defs = SetComputeCorrelation_def UpdateCorrelationCoefficient_def
  coefficient_fill_def vertex_signal_def read_at_def UpdateSmooth_def UpdateSmooth_own_def
  SetSmooth_def notify_update_def surface_UpdateOverlay_def emit_DataUpdated_def




section \<open>Smoothing on and off\<close>

lemma memcpy_length: "memcpy dst src off n = Some r \<Longrightarrow> length r = length dst"
  by (drule memcpy_Some) auto

lemma SmoothData_None_length:
  assumes "SmoothData env this n None w = Inr (w', r)" and "overlays w this = Some ov"
  shows "w' = log_cerr ''Can not allocate mri'' w
         \<or> (\<exists>d' dl. fData ov = Some dl \<and> length d' = length dl
               \<and> w' = put_overlay this (ov\<lparr>fData := Some d'\<rparr>) w)"
  using assms unfolding SmoothData_def
  by (simp split: if_splits option.splits) (blast dest: memcpy_length)+

lemma UpdateSmooth_own_Inr:
  assumes run: "UpdateSmooth_own env y w = Inr w'" and Y: "overlays w y = Some Y"
  shows "\<exists>dd. overlays w' = (overlays w)(y \<mapsto> Y\<lparr>fData := dd\<rparr>)
           \<and> properties w' = properties w
           \<and> (\<forall>dl. fData Y = Some dl \<longrightarrow> (\<exists>dl'. dd = Some dl' \<and> length dl' = length dl))
           \<and> (\<forall>p u dl. properties w (property Y) = Some p \<and> \<not> smooth p
                  \<and> fDataUnsmoothed Y = Some u \<and> fData Y = Some dl
                \<longrightarrow> dd = memcpy dl u 0 (nDataSize Y))"
proof -
  from run Y obtain p where p: "properties w (property Y) = Some p"
    by (auto simp: UpdateSmooth_own_def split: option.splits)
  have same: "(overlays w)(y \<mapsto> Y\<lparr>fData := fData Y\<rparr>) = overlays w"
    using Y by (auto simp: fun_eq_iff)
  have nu: "overlays w' = overlays w1 \<and> properties w' = properties w1"
    if "notify_update y w1 = Inr w'" for w1
    using that
    by (auto simp: notify_update_def surface_UpdateOverlay_def emit_DataUpdated_def
             split: option.splits sum.splits if_splits)
  show ?thesis
  proof (cases "smooth p")
    case True
    with run Y p obtain w1 where
      sd: "SmoothData_default env y w = Inr w1" and n1: "notify_update y w1 = Inr w'"
      by (auto simp: UpdateSmooth_own_def split: sum.splits)
    from sd obtain r where "SmoothData env y (default_nSteps env) None w = Inr (w1, r)"
      by (auto simp: SmoothData_default_def split: sum.splits)
    from SmoothData_None_length[OF this Y]
    consider "w1 = log_cerr ''Can not allocate mri'' w"
      | d' dl where "fData Y = Some dl" "length d' = length dl"
          "w1 = put_overlay y (Y\<lparr>fData := Some d'\<rparr>) w"
      by blast
    then show ?thesis
    proof cases
      case 1
      with nu[OF n1] same True p show ?thesis
        by (intro exI[of _ "fData Y"]) (simp add: log_cerr_def)
    next
      case 2
      with nu[OF n1] True p show ?thesis
        by (intro exI[of _ "Some d'"]) (simp add: put_overlay_def)
    qed
  next
    case False
    with run Y p obtain dl u d' where
      c: "fData Y = Some dl" "fDataUnsmoothed Y = Some u"
         "memcpy dl u 0 (nDataSize Y) = Some d'"
         "notify_update y (put_overlay y (Y\<lparr>fData := Some d'\<rparr>) w) = Inr w'"
      by (auto simp: UpdateSmooth_own_def split: option.splits sum.splits)
    from nu[OF c(4)] c(1,2,3) memcpy_length[OF c(3)] show ?thesis
      by (intro exI[of _ "Some d'"]) (simp add: put_overlay_def)
  qed
qed

lemma UpdateSmooth_Inr:
  assumes run: "UpdateSmooth env x tp w = Inr w'" and X: "overlays w x = Some X"
      and np: "overlayPaired X \<noteq> Some x"
  shows "\<exists>wa. UpdateSmooth_own env x w = Inr wa \<and> overlays w' x = overlays wa x
           \<and> properties w' = properties w"
proof -
  from run obtain wa where own: "UpdateSmooth_own env x w = Inr wa"
    by (auto simp: UpdateSmooth_def split: sum.splits)
  from UpdateSmooth_own_Inr[OF own X] obtain dd where
    a: "overlays wa = (overlays w)(x \<mapsto> X\<lparr>fData := dd\<rparr>)" "properties wa = properties w"
    by (elim exE conjE) (rule that; assumption)
  have xa: "overlays wa x = Some (X\<lparr>fData := dd\<rparr>)" using a(1) by simp
  show ?thesis
  proof (cases "tp \<and> overlayPaired X \<noteq> None")
    case False
    with run own xa have "w' = wa" by (auto simp: UpdateSmooth_def split: option.splits)
    with own a(2) show ?thesis by blast
  next
    case True
    then obtain b where b: "overlayPaired X = Some b" by auto
    with np have bx: "b \<noteq> x" by auto
    from run own xa b True have ob: "UpdateSmooth_own env b wa = Inr w'"
      by (simp add: UpdateSmooth_def)
    then obtain B where B: "overlays wa b = Some B"
      by (auto simp: UpdateSmooth_own_def split: option.splits)
    from UpdateSmooth_own_Inr[OF ob B] bx a(2) own show ?thesis by auto
  qed
qed

text \<open>An overlay whose unsmoothed buffer holds the working buffer, as \<^verbatim>\<open>SetActiveFrame\<close>,
  \<^verbatim>\<open>UpdateCorrelationAtVertex\<close> and \<^verbatim>\<open>UpdateCorrelationCoefficient\<close> leave it, gets its working
  buffer back when smoothing is enabled and disabled again.\<close>

lemma SetSmooth_restores:
  assumes X: "overlays w x = Some X"
      and sync: "fData X = Some d" "fDataUnsmoothed X = Some d" "int (length d) = nDataSize X"
      and np: "overlayPaired X \<noteq> Some x"
      and on: "SetSmooth env x True tp w = Inr w1"
      and off: "SetSmooth env x False tp w1 = Inr w2"
  shows "map_option fData (overlays w2 x) = Some (Some d)"
proof -
  from on X obtain p where p: "properties w (property X) = Some p"
    by (auto simp: SetSmooth_def split: option.splits)
  let ?w0 = "w\<lparr>properties := (properties w)(property X \<mapsto> p\<lparr>smooth := True\<rparr>)\<rparr>"
  have on': "UpdateSmooth env x tp ?w0 = Inr w1" using on X p by (simp add: SetSmooth_def)
  have X0: "overlays ?w0 x = Some X" using X by simp
  from UpdateSmooth_Inr[OF on' X0 np] obtain wa where
    a: "UpdateSmooth_own env x ?w0 = Inr wa" "overlays w1 x = overlays wa x"
       "properties w1 = properties ?w0"
    by blast
  from UpdateSmooth_own_Inr[OF a(1) X0] sync(1) obtain dl' where
    b: "overlays wa x = Some (X\<lparr>fData := Some dl'\<rparr>)" "length dl' = length d"
    by auto
  let ?X1 = "X\<lparr>fData := Some dl'\<rparr>"
  have X1: "overlays w1 x = Some ?X1" using a(2) b(1) by simp
  have p1: "properties w1 (property ?X1) = Some (p\<lparr>smooth := True\<rparr>)" using a(3) by simp
  let ?w10 = "w1\<lparr>properties := (properties w1)(property ?X1 \<mapsto> p\<lparr>smooth := False\<rparr>)\<rparr>"
  have off': "UpdateSmooth env x tp ?w10 = Inr w2"
    using off X1 p1 by (simp add: SetSmooth_def)
  have X10: "overlays ?w10 x = Some ?X1" using X1 by simp
  have np1: "overlayPaired ?X1 \<noteq> Some x" using np by simp
  from UpdateSmooth_Inr[OF off' X10 np1] obtain wb where
    c: "UpdateSmooth_own env x ?w10 = Inr wb" "overlays w2 x = overlays wb x"
    by blast
  have cp: "memcpy dl' d 0 (nDataSize X) = Some d"
    using sync(3) b(2) by (intro memcpy_exact slice_whole) simp_all
  from UpdateSmooth_own_Inr[OF c(1) X10] obtain dd where
    d: "overlays wb = (overlays ?w10)(x \<mapsto> ?X1\<lparr>fData := dd\<rparr>)"
       "\<forall>p u dl. properties ?w10 (property ?X1) = Some p \<and> \<not> smooth p
                  \<and> fDataUnsmoothed ?X1 = Some u \<and> fData ?X1 = Some dl
                \<longrightarrow> dd = memcpy dl u 0 (nDataSize ?X1)"
    by (elim exE conjE) (rule that; assumption)
  have "dd = memcpy dl' d 0 (nDataSize ?X1)"
    by (rule d(2)[rule_format, of "p\<lparr>smooth := False\<rparr>"]) (use sync in simp)
  with cp have "dd = Some d" by simp
  with c(2) d(1) show ?thesis by simp
qed

text \<open>Claim C4 on the code. \<^verbatim>\<open>UpdateSmooth\<close> restores the working buffer from
  \<^verbatim>\<open>m_fDataUnsmoothed\<close>, which \<^verbatim>\<open>SetActiveFrame\<close>, \<^verbatim>\<open>UpdateCorrelationAtVertex\<close> and
  \<^verbatim>\<open>UpdateCorrelationCoefficient\<close> fill with the working buffer. \<^verbatim>\<open>InitializeData()\<close> allocates
  it and does not fill it: for an overlay holding the mesh's own values \<open>[1, 2]\<close>, enabling
  smoothing and disabling it again leaves what the fresh array held (here \<open>[7, 7]\<close>) in the
  working buffer.\<close>

theorem UpdateSmooth_mesh_overlay:
  "(case SurfaceOverlay ex_env 0 (ex_surface 0) 0 (ex_property False) empty_world of
      Inl e \<Rightarrow> False
    | Inr w0 \<Rightarrow>
        (case SetSmooth ex_env 0 True True w0 of
           Inl e \<Rightarrow> False
         | Inr w1 \<Rightarrow>
             (case SetSmooth ex_env 0 False True w1 of
                Inl e \<Rightarrow> False
              | Inr w2 \<Rightarrow>
                  map_option fData (overlays w0 0) = Some (Some [1, 2])
                  \<and> map_option fData (overlays w1 0) = Some (Some [7, 7])
                  \<and> map_option fData (overlays w2 0) = Some (Some [7, 7]))))"
  by (simp add: SurfaceOverlay_def InitializeData_mesh_def mode_defs op_defs ex_defs
        numeral_2_eq_2)

end
